theory Spec2Isabelle
  imports Main "HOL-Library.Word"
begin

section \<open>Errors and Go library helpers\<close>

text \<open>
  Every error return, panic and process exit of the Go source is a value.  The
  constructors name the place in the source that produces the error.
\<close>

datatype error =
    ErrInvalidPortMap
  | ErrSyntax string
  | ErrRange string
  | ErrDuration string
  | ErrDelegate string
  | ErrNotFound string
  | ErrSpec string
  | ErrNewContainer string
  | ErrSchedule string
  | ErrProcessKill string
  | ErrRuntime string
  | ErrReadFile string
  | ErrRemoveAll string
  | ErrActivator string
  | ErrWrap string "error option"

text \<open>
  How a call ends: it returns a value, returns an error, ends the shim process
  (\<^verbatim>\<open>os.Exit\<close>, \<^verbatim>\<open>log.Fatalf\<close>) or panics (a method call on nil, a failed type assertion).
\<close>

datatype 'a outcome = Return 'a | Fail error | ShimExit int | Panic string

text \<open>\<^verbatim>\<open>strings.Split(s, sep)\<close> for a separator of one byte: n separators give n + 1 parts.\<close>

fun strings_Split :: "string \<Rightarrow> char \<Rightarrow> string list" where
  "strings_Split [] sep = [[]]"
| "strings_Split (c # cs) sep =
     (if c = sep then [] # strings_Split cs sep
      else (case strings_Split cs sep of
              [] \<Rightarrow> [[c]]
            | p # ps \<Rightarrow> (c # p) # ps))"

text \<open>
  \<^verbatim>\<open>strconv.ParseUint(s, 10, 16)\<close>: the empty string and any byte that is not a decimal
  digit are syntax errors; a value above 65535 is a range error, raised at the digit
  that crosses the bound (before later bytes are looked at).
\<close>

definition is_digit :: "char \<Rightarrow> bool" where
  "is_digit c = ((of_char (CHR ''0'') :: int) \<le> of_char c \<and> (of_char c :: int) \<le> of_char (CHR ''9''))"

definition digit_val :: "char \<Rightarrow> int" where
  "digit_val c = of_char c - of_char (CHR ''0'')"

fun ParseUint_loop :: "string \<Rightarrow> int \<Rightarrow> string \<Rightarrow> error + int" where
  "ParseUint_loop s0 n [] = Inr n"
| "ParseUint_loop s0 n (c # cs) =
     (if \<not> is_digit c then Inl (ErrSyntax s0)
      else let n1 = n * 10 + digit_val c
           in if n1 > 65535 then Inl (ErrRange s0) else ParseUint_loop s0 n1 cs)"

definition ParseUint16 :: "string \<Rightarrow> error + int" where
  "ParseUint16 s = (if s = [] then Inl (ErrSyntax s) else ParseUint_loop s 0 s)"

text \<open>\<^verbatim>\<open>strconv.ParseBool\<close>: the twelve accepted spellings.\<close>

definition ParseBool :: "string \<Rightarrow> error + bool" where
  "ParseBool s =
     (if s \<in> set [''1'', ''t'', ''T'', ''TRUE'', ''true'', ''True''] then Inr True
      else if s \<in> set [''0'', ''f'', ''F'', ''FALSE'', ''false'', ''False''] then Inr False
      else Inl (ErrSyntax s))"

section \<open>zeropod/config.go\<close>

text \<open>
  The annotations of a spec are a Go map from strings to strings.  They are kept as the
  list of its entries, keys distinct, in the order in which a \<^verbatim>\<open>range\<close> over the map meets
  them: Go fixes no order, so every order of the entries is a possible input.
\<close>

type_synonym annotations = "(string \<times> string) list"

record annotationConfig =
  ann_PortMap :: string
  ann_ZeropodContainerNames :: string
  ann_ScaledownDuration :: string
  ann_DisableCheckpointing :: string
  ann_PreDump :: string
  ann_ContainerName :: string
  ann_ContainerType :: string
  ann_PodName :: string
  ann_PodNamespace :: string
  ann_PodUID :: string
  ann_VClusterPodName :: string
  ann_VClusterPodNamespace :: string

record Config =
  ZeropodContainerNames :: "string list"
  Ports :: "16 word list"
  ScaleDownDuration :: int
  DisableCheckpointing :: bool
  PreDump :: bool
  ContainerName :: string
  ContainerType :: string
  podName :: string
  podNamespace :: string
  podUID :: string
  ContainerdNamespace :: string
  spec :: annotations
  vclusterPodName :: string
  vclusterPodNamespace :: string

definition defaultScaleDownDuration :: int where
  "defaultScaleDownDuration = 60 * 1000000000"

definition containersDelim :: char where "containersDelim = CHR '',''"
definition portsDelim :: char where "portsDelim = containersDelim"
definition mappingDelim :: char where "mappingDelim = CHR '';''"
definition mapDelim :: char where "mapDelim = CHR ''=''"
definition defaultContainerdNS :: string where "defaultContainerdNS = ''k8s.io''"

text \<open>
  \<^verbatim>\<open>strings.EqualFold(key, tag)\<close> for a tag of ASCII bytes, as all tags of
  \<^verbatim>\<open>annotationConfig\<close> are.  Two ASCII bytes match when they are equal or the smaller is
  an upper-case letter and the larger its lower-case form.  Of the runes beyond ASCII
  only two fold to an ASCII letter: the Kelvin sign U+212A (bytes E2 84 AA) matches
  \<^verbatim>\<open>k\<close> and \<^verbatim>\<open>K\<close>, the long s U+017F (bytes C5 BF) matches \<^verbatim>\<open>s\<close> and \<^verbatim>\<open>S\<close>; any other
  rune beyond ASCII, well-formed or not, matches no ASCII byte.
\<close>

definition ascii_fold_eq :: "char \<Rightarrow> char \<Rightarrow> bool" where
  "ascii_fold_eq a b =
     (a = b \<or>
      (let lo = min (of_char a :: int) (of_char b);
           hi = max (of_char a :: int) (of_char b)
       in 65 \<le> lo \<and> lo \<le> 90 \<and> hi = lo + 32))"

fun EqualFold :: "string \<Rightarrow> string \<Rightarrow> bool" where
  "EqualFold [] t = (t = [])"
| "EqualFold (b # s) [] = False"
| "EqualFold (b # s) (c # t) =
     (if (of_char b :: int) < 128 then ascii_fold_eq b c \<and> EqualFold s t
      else if b = CHR 0xE2 \<and> take 2 s = [CHR 0x84, CHR 0xAA]
        then (c = CHR ''k'' \<or> c = CHR ''K'') \<and> EqualFold (drop 2 s) t
      else if b = CHR 0xC5 \<and> take 1 s = [CHR 0xBF]
        then (c = CHR ''s'' \<or> c = CHR ''S'') \<and> EqualFold (drop 1 s) t
      else False)"

text \<open>
  \<^verbatim>\<open>mapstructure.Decode(spec.Annotations, cfg)\<close> on a \<^verbatim>\<open>map[string]string\<close>, for one field:
  the value stored under the tag of the field; when the map has no such key, the value
  of the first key that the loop over the map finds to match the tag by
  \<^verbatim>\<open>strings.EqualFold\<close>; the empty string when no key matches.  A key that is present with
  an empty value is a match.
\<close>

definition field :: "annotations \<Rightarrow> string \<Rightarrow> string" where
  "field m tag =
     (case map_of m tag of
        Some v \<Rightarrow> v
      | None \<Rightarrow>
          (case find (\<lambda>kv. EqualFold (fst kv) tag) m of
             Some kv \<Rightarrow> snd kv
           | None \<Rightarrow> []))"

definition mapstructure_Decode :: "annotations \<Rightarrow> annotationConfig" where
  "mapstructure_Decode m = \<lparr>
     ann_PortMap = field m ''zeropod.ctrox.dev/ports-map'',
     ann_ZeropodContainerNames = field m ''zeropod.ctrox.dev/container-names'',
     ann_ScaledownDuration = field m ''zeropod.ctrox.dev/scaledown-duration'',
     ann_DisableCheckpointing = field m ''zeropod.ctrox.dev/disable-checkpointing'',
     ann_PreDump = field m ''zeropod.ctrox.dev/pre-dump'',
     ann_ContainerName = field m ''io.kubernetes.cri.container-name'',
     ann_ContainerType = field m ''io.kubernetes.cri.container-type'',
     ann_PodName = field m ''io.kubernetes.cri.sandbox-name'',
     ann_PodNamespace = field m ''io.kubernetes.cri.sandbox-namespace'',
     ann_PodUID = field m ''io.kubernetes.cri.sandbox-uid'',
     ann_VClusterPodName = field m ''vcluster.loft.sh/name'',
     ann_VClusterPodNamespace = field m ''vcluster.loft.sh/namespace'' \<rparr>"

text \<open>The inner loop of \<^verbatim>\<open>NewConfig\<close> over the ports of one mapping.\<close>

fun parse_ports :: "string list \<Rightarrow> 16 word list \<Rightarrow> error + 16 word list" where
  "parse_ports [] acc = Inr acc"
| "parse_ports (port # rest) acc =
     (case ParseUint16 port of
        Inl e \<Rightarrow> Inl e
      | Inr p \<Rightarrow> parse_ports rest (acc @ [word_of_int p]))"

text \<open>The outer loop of \<^verbatim>\<open>NewConfig\<close> over the mappings of the ports-map annotation.\<close>

fun parse_mappings :: "string \<Rightarrow> string list \<Rightarrow> 16 word list \<Rightarrow> error + 16 word list" where
  "parse_mappings cname [] acc = Inr acc"
| "parse_mappings cname (mapping # rest) acc =
     (case strings_Split mapping mapDelim of
        [name, ports] \<Rightarrow>
          (if name \<noteq> cname then parse_mappings cname rest acc
           else (case parse_ports (strings_Split ports portsDelim) acc of
                   Inl e \<Rightarrow> Inl e
                 | Inr acc' \<Rightarrow> parse_mappings cname rest acc'))
      | _ \<Rightarrow> Inl ErrInvalidPortMap)"

text \<open>
  \<^verbatim>\<open>NewConfig\<close>.  \<^verbatim>\<open>time.ParseDuration\<close>, \<^verbatim>\<open>runtime.GOARCH\<close> and the namespace carried by the
  context are taken from the environment, as parameters.
\<close>

definition NewConfig ::
  "(string \<Rightarrow> error + int) \<Rightarrow> string \<Rightarrow> string option \<Rightarrow> annotations \<Rightarrow> error + Config" where
  "NewConfig parseDuration goarch ctx_ns annots =
     (let cfg = mapstructure_Decode annots in
      (case (if ann_PortMap cfg \<noteq> []
             then parse_mappings (ann_ContainerName cfg)
                    (strings_Split (ann_PortMap cfg) mappingDelim) []
             else Inr []) of
         Inl e \<Rightarrow> Inl e
       | Inr containerPorts \<Rightarrow>
      (case (if ann_ScaledownDuration cfg \<noteq> []
             then parseDuration (ann_ScaledownDuration cfg)
             else Inr defaultScaleDownDuration) of
         Inl e \<Rightarrow> Inl e
       | Inr dur \<Rightarrow>
      (case (if ann_DisableCheckpointing cfg \<noteq> []
             then ParseBool (ann_DisableCheckpointing cfg)
             else Inr False) of
         Inl e \<Rightarrow> Inl e
       | Inr disableCheckpointing \<Rightarrow>
      (case (if ann_PreDump cfg \<noteq> []
             then (case ParseBool (ann_PreDump cfg) of
                     Inl e \<Rightarrow> Inl e
                   | Inr pd \<Rightarrow> Inr (if pd \<and> goarch = ''arm64'' then False else pd))
             else Inr False) of
         Inl e \<Rightarrow> Inl e
       | Inr preDump \<Rightarrow>
         Inr \<lparr> ZeropodContainerNames =
                  (if ann_ZeropodContainerNames cfg \<noteq> []
                   then strings_Split (ann_ZeropodContainerNames cfg) containersDelim
                   else []),
                Ports = containerPorts,
                ScaleDownDuration = dur,
                DisableCheckpointing = disableCheckpointing,
                PreDump = preDump,
                ContainerName = ann_ContainerName cfg,
                ContainerType = ann_ContainerType cfg,
                podName = ann_PodName cfg,
                podNamespace = ann_PodNamespace cfg,
                podUID = ann_PodUID cfg,
                ContainerdNamespace =
                  (case ctx_ns of None \<Rightarrow> defaultContainerdNS | Some ns \<Rightarrow> ns),
                spec = annots,
                vclusterPodName = ann_VClusterPodName cfg,
                vclusterPodNamespace = ann_VClusterPodNamespace cfg \<rparr>)))))"

definition IsZeropodContainer :: "Config \<Rightarrow> bool" where
  "IsZeropodContainer cfg =
     (if ContainerName cfg \<in> set (ZeropodContainerNames cfg) then True
      else length (ZeropodContainerNames cfg) = 0)"

definition PodName :: "Config \<Rightarrow> string" where
  "PodName cfg = (if vclusterPodName cfg \<noteq> [] then vclusterPodName cfg else podName cfg)"

definition PodNamespace :: "Config \<Rightarrow> string" where
  "PodNamespace cfg =
     (if vclusterPodNamespace cfg \<noteq> [] then vclusterPodNamespace cfg else podNamespace cfg)"


definition HostPodName :: "Config \<Rightarrow> string" where
  "HostPodName cfg = podName cfg"

definition HostPodNamespace :: "Config \<Rightarrow> string" where
  "HostPodNamespace cfg = podNamespace cfg"

section \<open>Data of the lifecycle wrapper (first file under src/unnamed)\<close>

text \<open>
  Processes are shared, mutable objects: the wrapper state holds a store from process
  references to process records, and \<^verbatim>\<open>SetExited\<close> updates the store.  A container
  of the shim carries its pointer identity, which keys \<^verbatim>\<open>pendingExecs\<close>.
\<close>

type_synonym pref = nat

record Stdio =
  Stdin :: string
  Stdout :: string
  Stderr :: string

record process =
  p_ID :: string
  p_Pid :: int
  p_Init :: bool
  p_Stdio :: Stdio
  p_exited :: "int option"

record runc_Container =
  c_ptr :: nat
  c_ID :: string
  c_Bundle :: string

record containerProcess =
  cp_Container :: runc_Container
  cp_Process :: pref

record Exit =
  e_Pid :: int
  e_Status :: int

datatype hook = WrapperHook

text \<open>
  Modelled from the spec: the declaration of \<^verbatim>\<open>zeropod.Container\<close> is not among the sources.
  The fields are the ones the code reads and writes through its methods (\<^verbatim>\<open>ScaledDown\<close>,
  \<^verbatim>\<open>Process\<close>, \<^verbatim>\<open>InitialProcess\<close>, which the wrapper compares with nil, the two restore
  callbacks of \<^verbatim>\<open>Restore\<close>), and whether the Activator the container owns is running.
\<close>

record zeropod_Container =
  zc_Container :: runc_Container
  zc_cfg :: Config
  zc_process :: pref
  zc_initialProcess :: "pref option"
  zc_scaledDown :: bool
  zc_preRestore :: "hook option"
  zc_postRestore :: "hook option"
  zc_activatorRunning :: bool

record StartRequest =
  sr_ID :: string
  sr_ExecID :: string

record StartResponse =
  resp_Pid :: "32 word"

record ExecProcessRequest =
  er_ID :: string
  er_ExecID :: string

record DeleteRequest =
  dr_ID :: string
  dr_ExecID :: string

record KillRequest =
  kr_ID :: string
  kr_ExecID :: string
  kr_Signal :: "32 word"
  kr_All :: bool

record CreateTaskRequest =
  ct_ID :: string
  ct_Bundle :: string
  ct_Terminal :: bool
  ct_Stdin :: string
  ct_Stdout :: string
  ct_Stderr :: string
  ct_ParentCheckpoint :: string
  ct_Checkpoint :: string

text \<open>The calls the wrapper makes on code outside of it, in the order it makes them.\<close>

datatype event =
    DelegateStart string string
  | DelegateExec string string
  | DelegateDelete string string
  | DelegateKill string string "32 word" bool
  | HandleProcessExit Exit runc_Container pref
  | SetExited pref int
  | ContainerStop string
  | CancelScaleDown string
  | ScheduleScaleDown string
  | ProcessKill pref "32 word" bool
  | RegisterPreRestore string
  | RegisterPostRestore string
  | RegisterShutdownCallback string
  | NewContainer CreateTaskRequest
  | CgroupSet string
  | PreStart
  | ProcessStart pref
  | ReadFile string
  | ObserveRestoreDuration
  | HandleStarted runc_Container pref
  | DisableRedirects string

datatype level = Debug | Info | Error | Fatal

datatype logarg = LStr string | LInt int | LErr error | LBytes string

type_synonym logentry = "level \<times> string \<times> logarg list"

record wrapper =
  zeropodContainers :: "string \<rightharpoonup> zeropod_Container"
  containers :: "string \<rightharpoonup> runc_Container"
  running :: "int \<Rightarrow> containerProcess list"
  pendingExecs :: "nat \<Rightarrow> int"
  exitSubscribers :: "(int \<Rightarrow> Exit list) list"
  procs :: "pref \<Rightarrow> process"
  shutdownCallbacks :: "string list"
  trace :: "event list"
  logs :: "logentry list"

text \<open>
  What the code outside the wrapper answers: the delegate task service, the runtime,
  the file system and the parts of package zeropod that are not among the sources.
\<close>

record env =
  svc_Start :: "error + StartResponse"
  svc_Exec :: "error option"
  svc_Delete :: "error option"
  svc_Kill :: "error option"
  GetSpec :: "string \<Rightarrow> error + annotations"
  ParseDuration :: "string \<Rightarrow> error + int"
  GOARCH :: string
  ctx_Namespace :: "string option"
  zeropod_New :: "Config \<Rightarrow> runc_Container \<Rightarrow> error + zeropod_Container"
  ScheduleScaleDown_err :: "error option"
  process_Kill :: "pref \<Rightarrow> error option"
  runc_NewContainer :: "CreateTaskRequest \<Rightarrow> error + runc_Container"
  container_Process :: "runc_Container \<Rightarrow> error + pref"
  process_Start :: "pref \<Rightarrow> error option"
  os_ReadFile :: "string \<Rightarrow> error + string"
  DisableRedirects_err :: "error option"

definition emit :: "event \<Rightarrow> wrapper \<Rightarrow> wrapper" where
  "emit ev w = w\<lparr>trace := trace w @ [ev]\<rparr>"

definition log :: "level \<Rightarrow> string \<Rightarrow> logarg list \<Rightarrow> wrapper \<Rightarrow> wrapper" where
  "log lv fmt args w = w\<lparr>logs := logs w @ [(lv, fmt, args)]\<rparr>"

text \<open>\<^verbatim>\<open>p.SetExited(status)\<close> on the process behind a reference.\<close>

definition process_SetExited :: "pref \<Rightarrow> int \<Rightarrow> wrapper \<Rightarrow> wrapper" where
  "process_SetExited p status w =
     emit (SetExited p status)
       (w\<lparr>procs := (procs w)(p := (procs w p)\<lparr>p_exited := Some status\<rparr>)\<rparr>)"

text \<open>
  Modelled from the spec: \<^verbatim>\<open>Container.Stop\<close> of package zeropod is not among the sources.
  The spec (4.1, 4.3) has it stop the Activator, idempotently.
\<close>

definition Container_Stop :: "string \<Rightarrow> wrapper \<Rightarrow> wrapper" where
  "Container_Stop cid w =
     emit (ContainerStop cid)
       (case zeropodContainers w cid of
          None \<Rightarrow> w
        | Some zc \<Rightarrow>
            w\<lparr>zeropodContainers := (zeropodContainers w)(cid \<mapsto> zc\<lparr>zc_activatorRunning := False\<rparr>)\<rparr>)"

definition getZeropodContainer :: "wrapper \<Rightarrow> string \<Rightarrow> zeropod_Container option" where
  "getZeropodContainer w cid = zeropodContainers w cid"


section \<open>Go's package path\<close>

text \<open>
  \<^verbatim>\<open>path.Clean\<close>, on the elements of the path: empty elements and \<^verbatim>\<open>.\<close> go, \<^verbatim>\<open>..\<close> removes
  the element before it when there is one to remove, is dropped at the root and is kept
  at the start of a path that is not rooted.  The elements kept so far are held in
  reverse.
\<close>

fun clean_elems :: "bool \<Rightarrow> string list \<Rightarrow> string list \<Rightarrow> string list" where
  "clean_elems rooted out [] = rev out"
| "clean_elems rooted out (el # els) =
     (if el = [] \<or> el = ''.'' then clean_elems rooted out els
      else if el = ''..'' then
        (case out of
           [] \<Rightarrow> if rooted then clean_elems rooted [] els else clean_elems rooted [''..''] els
         | prev # below \<Rightarrow>
             if prev = ''..'' then clean_elems rooted (''..'' # out) els
             else clean_elems rooted below els)
      else clean_elems rooted (el # out) els)"

fun strings_Join :: "string list \<Rightarrow> string \<Rightarrow> string" where
  "strings_Join [] sep = []"
| "strings_Join [x] sep = x"
| "strings_Join (x # y # ys) sep = x @ sep @ strings_Join (y # ys) sep"

definition path_Clean :: "string \<Rightarrow> string" where
  "path_Clean p =
     (if p = [] then ''.''
      else let rooted = (hd p = CHR ''/'');
               out = (if rooted then ''/'' else []) @
                     strings_Join (clean_elems rooted [] (strings_Split p (CHR ''/''))) ''/''
           in if out = [] then ''.'' else out)"

text \<open>\<^verbatim>\<open>path.Join\<close> (and \<^verbatim>\<open>filepath.Join\<close> on Linux): empty elements are ignored.\<close>

definition path_Join :: "string list \<Rightarrow> string" where
  "path_Join elem =
     (let nonempty = filter (\<lambda>e. e \<noteq> []) elem
      in if nonempty = [] then [] else path_Clean (strings_Join nonempty ''/''))"

definition snapshotDir :: "string \<Rightarrow> string" where
  "snapshotDir bundle = path_Join [bundle, ''snapshots'']"

definition containerDir :: "string \<Rightarrow> string" where
  "containerDir bundle = path_Join [snapshotDir bundle, ''container'']"

section \<open>The lifecycle wrapper: Kill, Delete and the exit loop\<close>

text \<open>
  The mutexes of the wrapper are not modelled: each call below is one uninterrupted run
  of the method.
\<close>

definition service_Kill :: "env \<Rightarrow> KillRequest \<Rightarrow> wrapper \<Rightarrow> unit outcome \<times> wrapper" where
  "service_Kill en r w =
     ((case svc_Kill en of None \<Rightarrow> Return () | Some e \<Rightarrow> Fail e),
      emit (DelegateKill (kr_ID r) (kr_ExecID r) (kr_Signal r) (kr_All r)) w)"

definition service_Delete :: "env \<Rightarrow> DeleteRequest \<Rightarrow> wrapper \<Rightarrow> unit outcome \<times> wrapper" where
  "service_Delete en r w =
     ((case svc_Delete en of None \<Rightarrow> Return () | Some e \<Rightarrow> Fail e),
      emit (DelegateDelete (dr_ID r) (dr_ExecID r)) w)"

definition service_Exec :: "env \<Rightarrow> ExecProcessRequest \<Rightarrow> wrapper \<Rightarrow> unit outcome \<times> wrapper" where
  "service_Exec en r w =
     ((case svc_Exec en of None \<Rightarrow> Return () | Some e \<Rightarrow> Fail e),
      emit (DelegateExec (er_ID r) (er_ExecID r)) w)"


definition wrapper_Delete :: "env \<Rightarrow> DeleteRequest \<Rightarrow> wrapper \<Rightarrow> unit outcome \<times> wrapper" where
  "wrapper_Delete en r w =
     (case getZeropodContainer w (dr_ID r) of
        None \<Rightarrow> service_Delete en r w
      | Some zc \<Rightarrow>
          if length (dr_ExecID r) \<noteq> 0 then
            (let w1 = emit (ScheduleScaleDown (dr_ID r)) w
             in case ScheduleScaleDown_err en of
                  Some e \<Rightarrow> (Fail e, w1)
                | None \<Rightarrow> service_Delete en r w1)
          else service_Delete en r w)"

text \<open>
  \<^verbatim>\<open>preventExit\<close>.  In Go, \<^verbatim>\<open>a != nil && b || c\<close> is \<^verbatim>\<open>(a != nil && b) || c\<close>, so the call of
  \<^verbatim>\<open>SetExited\<close> on the initial process can meet nil.
\<close>

definition preventExit :: "wrapper \<Rightarrow> containerProcess \<Rightarrow> bool outcome \<times> wrapper" where
  "preventExit w cp =
     (case getZeropodContainer w (c_ID (cp_Container cp)) of
        None \<Rightarrow> (Return False, w)
      | Some zc \<Rightarrow>
          if zc_scaledDown zc then
            (Return True,
             log Info ''not setting exited because process has scaled down: %v''
               [LInt (p_Pid (procs w (cp_Process cp)))] w)
          else if (case zc_initialProcess zc of
                     None \<Rightarrow> False
                   | Some ip \<Rightarrow> p_ID (procs w (cp_Process cp)) = p_ID (procs w ip))
                  \<or> p_ID (procs w (cp_Process cp)) = p_ID (procs w (zc_process zc))
          then (case zc_initialProcess zc of
                  None \<Rightarrow> (Panic ''InitialProcess is nil'', w)
                | Some ip \<Rightarrow> (Return False, process_SetExited ip 0 w))
          else (Return False, w))"

text \<open>The first loop of \<^verbatim>\<open>processExits\<close>: every pair at the PID is asked, none is skipped.\<close>

fun preventExit_loop ::
  "wrapper \<Rightarrow> containerProcess list \<Rightarrow> bool \<Rightarrow> bool outcome \<times> wrapper" where
  "preventExit_loop w [] pe = (Return pe, w)"
| "preventExit_loop w (cp # cps) pe =
     (case preventExit w cp of
        (Return b, w') \<Rightarrow> preventExit_loop w' cps (if b then True else pe)
      | (Fail e, w') \<Rightarrow> (Fail e, w')
      | (ShimExit n, w') \<Rightarrow> (ShimExit n, w')
      | (Panic m, w') \<Rightarrow> (Panic m, w'))"

text \<open>
  The second loop: a pair of an init process whose container has pending execs goes to
  \<^verbatim>\<open>skipped\<close>, every other pair is appended to \<^verbatim>\<open>cps\<close>.
\<close>

fun skip_loop ::
  "wrapper \<Rightarrow> containerProcess list \<Rightarrow> containerProcess list \<Rightarrow> containerProcess list
     \<Rightarrow> containerProcess list \<times> containerProcess list" where
  "skip_loop w [] skipped cps = (skipped, cps)"
| "skip_loop w (cp # rest) skipped cps =
     (if p_Init (procs w (cp_Process cp)) \<and> pendingExecs w (c_ptr (cp_Container cp)) \<noteq> 0
      then skip_loop w rest (skipped @ [cp]) cps
      else skip_loop w rest skipped (cps @ [cp]))"

fun handle_loop :: "Exit \<Rightarrow> containerProcess list \<Rightarrow> wrapper \<Rightarrow> wrapper" where
  "handle_loop e [] w = w"
| "handle_loop e (cp # cps) w =
     handle_loop e cps (emit (HandleProcessExit e (cp_Container cp) (cp_Process cp)) w)"

text \<open>
  One pass of the loop of \<^verbatim>\<open>processExits\<close>, for one exit event.  \<^verbatim>\<open>cps\<close> starts as the
  pairs found at the PID, as in the source, and the second loop appends to it.  A PID
  without an entry in \<^verbatim>\<open>running\<close> reads as the empty list.
\<close>

definition processExit :: "Exit \<Rightarrow> wrapper \<Rightarrow> unit outcome \<times> wrapper" where
  "processExit e w =
     (let cps = running w (e_Pid e)
      in case preventExit_loop w cps False of
           (Fail er, w1) \<Rightarrow> (Fail er, w1)
         | (ShimExit n, w1) \<Rightarrow> (ShimExit n, w1)
         | (Panic m, w1) \<Rightarrow> (Panic m, w1)
         | (Return pe, w1) \<Rightarrow>
             if pe then (Return (), w1)
             else
               (let w2 = w1\<lparr>exitSubscribers :=
                              map (\<lambda>sub. sub(e_Pid e := sub (e_Pid e) @ [e])) (exitSubscribers w1)\<rparr>;
                    (skipped, cps') = skip_loop w2 (running w2 (e_Pid e)) [] cps;
                    w3 = w2\<lparr>running := (running w2)
                              (e_Pid e := (if length skipped > 0 then skipped else []))\<rparr>
                in (Return (), handle_loop e cps' w3)))"

text \<open>\<^verbatim>\<open>processExits\<close> over the events the channel delivers; a panic ends the shim.\<close>

fun processExits :: "Exit list \<Rightarrow> wrapper \<Rightarrow> unit outcome \<times> wrapper" where
  "processExits [] w = (Return (), w)"
| "processExits (e # es) w =
     (case processExit e w of
        (Return u, w') \<Rightarrow> processExits es w'
      | (Fail er, w') \<Rightarrow> (Fail er, w')
      | (ShimExit n, w') \<Rightarrow> (ShimExit n, w')
      | (Panic m, w') \<Rightarrow> (Panic m, w'))"


section \<open>The lifecycle wrapper: Start\<close>

definition containerTypeSandbox :: string where
  "containerTypeSandbox = ''sandbox''"

text \<open>\<^verbatim>\<open>getContainer\<close> of the delegate service: the container registered under the id.\<close>

definition getContainer :: "wrapper \<Rightarrow> string \<Rightarrow> error + runc_Container" where
  "getContainer w cid =
     (case containers w cid of None \<Rightarrow> Inl (ErrNotFound cid) | Some c \<Rightarrow> Inr c)"

text \<open>
  \<^verbatim>\<open>wrapper.Start\<close>.  The delegate runs first; the container, its spec and its
  configuration are read before the test on sandbox, exec id and selection.  The two
  restore callbacks are stored in the new container, the container is stored under the
  id, the shutdown callback is appended, and the countdown is scheduled last.
\<close>

definition wrapper_Start ::
  "env \<Rightarrow> StartRequest \<Rightarrow> wrapper \<Rightarrow> StartResponse outcome \<times> wrapper" where
  "wrapper_Start en r w =
     (let w0 = emit (DelegateStart (sr_ID r) (sr_ExecID r))
                 (log Info ''start called in zeropod service %s, %s''
                    [LStr (sr_ID r), LStr (sr_ExecID r)] w)
      in case svc_Start en of
           Inl e \<Rightarrow> (Fail e, w0)
         | Inr resp \<Rightarrow>
      (case getContainer w0 (sr_ID r) of
           Inl e \<Rightarrow> (Fail e, w0)
         | Inr container \<Rightarrow>
      (case GetSpec en (c_Bundle container) of
           Inl e \<Rightarrow> (Fail e, w0)
         | Inr annots \<Rightarrow>
      (case NewConfig (ParseDuration en) (GOARCH en) (ctx_Namespace en) annots of
           Inl e \<Rightarrow> (Fail e, w0)
         | Inr cfg \<Rightarrow>
             if ContainerType cfg = containerTypeSandbox \<or>
                length (sr_ExecID r) \<noteq> 0 \<or>
                \<not> IsZeropodContainer cfg
             then (Return resp,
                   log Debug ''ignoring container: %q of type %q''
                     [LStr (ContainerName cfg), LStr (ContainerType cfg)] w0)
             else
               (let w1 = log Info ''creating zeropod container: %s'' [LStr (ContainerName cfg)] w0
                in case zeropod_New en cfg container of
                     Inl e \<Rightarrow> (Fail (ErrWrap ''error creating scaled container'' (Some e)), w1)
                   | Inr zc0 \<Rightarrow>
                       (let zc = zc0\<lparr>zc_preRestore := Some WrapperHook,
                                       zc_postRestore := Some WrapperHook\<rparr>;
                            w2 = emit (RegisterPostRestore (sr_ID r))
                                   (emit (RegisterPreRestore (sr_ID r)) w1);
                            w3 = w2\<lparr>zeropodContainers := (zeropodContainers w2)(sr_ID r \<mapsto> zc)\<rparr>;
                            w4 = emit (RegisterShutdownCallback (sr_ID r))
                                   (w3\<lparr>shutdownCallbacks := shutdownCallbacks w3 @ [sr_ID r]\<rparr>);
                            w5 = emit (ScheduleScaleDown (sr_ID r)) w4
                        in case ScheduleScaleDown_err en of
                             Some e \<Rightarrow> (Fail e, w5)
                           | None \<Rightarrow> (Return resp, w5)))))))"

section \<open>zeropod/restore.go and the Exec path\<close>

text \<open>
  The request \<^verbatim>\<open>Restore\<close> builds: the stdio of the initial process, and the checkpoint
  directory unless checkpointing is disabled.  \<^verbatim>\<open>containerDir\<close> of package zeropod is not
  among the sources; the spec puts the checkpoint under \<^verbatim>\<open>snapshots/container\<close> of the
  bundle, which is what \<^verbatim>\<open>containerDir\<close> of the second file under src/unnamed computes, and
  that one stands for it.
\<close>

definition restore_request :: "zeropod_Container \<Rightarrow> Stdio \<Rightarrow> CreateTaskRequest" where
  "restore_request zc st = \<lparr>
     ct_ID = c_ID (zc_Container zc),
     ct_Bundle = c_Bundle (zc_Container zc),
     ct_Terminal = False,
     ct_Stdin = Stdin st,
     ct_Stdout = Stdout st,
     ct_Stderr = Stderr st,
     ct_ParentCheckpoint = [],
     ct_Checkpoint =
       (if DisableCheckpointing (zc_cfg zc) then []
        else containerDir (c_Bundle (zc_Container zc))) \<rparr>"

text \<open>
  \<^verbatim>\<open>Container.Restore\<close>, for the managed container stored under \<open>cid\<close>.  The error returned
  when the process does not start wraps the \<^verbatim>\<open>err\<close> of the inner \<^verbatim>\<open>os.ReadFile\<close>, which
  shadows the error of \<^verbatim>\<open>p.Start\<close>; wrapping nil still gives an error.  The pre-restore
  callback of the wrapper calls \<^verbatim>\<open>preStart\<close> of the delegate, the post-restore callback
  stores the new container under its id and calls the closure \<^verbatim>\<open>preStart\<close> returned.
  \<^verbatim>\<open>restoreLoggers\<close> returns nil without doing anything and is left out.
\<close>

definition Container_Restore ::
  "env \<Rightarrow> string \<Rightarrow> zeropod_Container \<Rightarrow> wrapper
     \<Rightarrow> (runc_Container \<times> pref) outcome \<times> wrapper" where
  "Container_Restore en cid zc w =
     (case zc_initialProcess zc of
        None \<Rightarrow> (Panic ''initialProcess is nil'', w)
      | Some ip \<Rightarrow>
     (let createReq = restore_request zc (p_Stdio (procs w ip));
          w1 = emit (NewContainer createReq) w
      in case runc_NewContainer en createReq of
           Inl e \<Rightarrow> (Fail e, w1)
         | Inr container \<Rightarrow>
      (let w2 = emit (CgroupSet (c_ID container)) w1;
           w3 = (case zc_preRestore zc of None \<Rightarrow> w2 | Some h \<Rightarrow> emit PreStart w2)
       in case container_Process en container of
            Inl e \<Rightarrow> (Fail e, w3)
          | Inr p \<Rightarrow>
      (let w4 = emit (ProcessStart p) (log Info ''restore: process created'' [] w3)
       in case process_Start en p of
            Some e \<Rightarrow>
              (let logfile = path_Join [c_Bundle container, ''work'', ''restore.log''];
                   w5 = emit (ReadFile logfile) w4
               in case os_ReadFile en logfile of
                    Inl re \<Rightarrow>
                      (Fail (ErrWrap ''start failed during restore'' (Some re)),
                       log Error ''restore.log: %s'' [LBytes []]
                         (log Error ''error reading restore.log: %s'' [LErr re] w5))
                  | Inr b \<Rightarrow>
                      (Fail (ErrWrap ''start failed during restore'' None),
                       log Error ''restore.log: %s'' [LBytes b] w5))
          | None \<Rightarrow>
              (let w5 = emit ObserveRestoreDuration w4;
                   w6 = w5\<lparr>zeropodContainers := (zeropodContainers w5)
                              (cid \<mapsto> zc\<lparr>zc_Container := container, zc_process := p\<rparr>)\<rparr>;
                   w7 = (case zc_postRestore zc of
                           None \<Rightarrow> w6
                         | Some h \<Rightarrow>
                             (let w' = w6\<lparr>containers := (containers w6)(c_ID container \<mapsto> container)\<rparr>
                              in case zc_preRestore zc of
                                   None \<Rightarrow> w'
                                 | Some h' \<Rightarrow> emit (HandleStarted container p) w'));
                   w8 = emit (DisableRedirects cid) w7
               in case DisableRedirects_err en of
                    Some e \<Rightarrow> (Fail (ErrWrap ''could not disable redirects'' (Some e)), w8)
                  | None \<Rightarrow> (Return (container, p), w8))))))"

text \<open>
  \<^verbatim>\<open>wrapper.Exec\<close>.  \<^verbatim>\<open>log.Fatalf\<close> ends the process with status 1, and \<^verbatim>\<open>os.Exit(1)\<close>
  follows it.
\<close>

definition wrapper_Exec ::
  "env \<Rightarrow> ExecProcessRequest \<Rightarrow> wrapper \<Rightarrow> unit outcome \<times> wrapper" where
  "wrapper_Exec en r w =
     (case getZeropodContainer w (er_ID r) of
        None \<Rightarrow> service_Exec en r w
      | Some zc \<Rightarrow>
          (let w1 = emit (CancelScaleDown (er_ID r)) w
           in if zc_scaledDown zc then
                (let w2 = log Info ''got exec for scaled down container, restoring'' [] w1
                 in case Container_Restore en (er_ID r) zc w2 of
                      (Return (c, p), w3) \<Rightarrow>
                        (let w4 = (case zeropodContainers w3 (er_ID r) of
                                     None \<Rightarrow> w3
                                   | Some zc' \<Rightarrow>
                                       w3\<lparr>zeropodContainers := (zeropodContainers w3)
                                            (er_ID r \<mapsto> zc'\<lparr>zc_scaledDown := False\<rparr>)\<rparr>);
                             w5 = log Info ''restored process for exec: %d in %s''
                                    [LInt (p_Pid (procs w4 p))] w4
                         in service_Exec en r w5)
                    | (Fail e, w3) \<Rightarrow>
                        (ShimExit 1,
                         log Fatal ''error restoring container, exiting shim: %s'' [LErr e] w3)
                    | (ShimExit n, w3) \<Rightarrow> (ShimExit n, w3)
                    | (Panic m, w3) \<Rightarrow> (Panic m, w3))
              else service_Exec en r w1))"


section \<open>The scale-down wrapper (second file under src/unnamed)\<close>

text \<open>
  The second file holds an earlier wrapper of the same service: its \<^verbatim>\<open>Start\<close> checkpoints
  the container right after the delegate has started it.  Its state is the fields the
  code reads and writes, the calls it makes on the runtime, the file system and the
  activator, and its log.
\<close>

record CheckpointConfig =
  cc_Path :: string
  cc_WorkDir :: string
  cc_Exit :: bool
  cc_AllowOpenTCP :: bool
  cc_AllowExternalUnixSockets :: bool
  cc_AllowTerminal :: bool
  cc_FileLocks :: bool
  cc_EmptyNamespaces :: "string list"

datatype task_event =
    ServiceStart string string
  | TimeSleep nat
  | OsRemoveAll string
  | InitCheckpoint CheckpointConfig
  | OsReadFile string
  | SendTaskCheckpointed string
  | ActivatorNewServer "16 word" string
  | ShutdownRegisterCallback
  | ActivatorStart
  | NsGetNS string
  | RemoveCriuIPTablesRules
  | ProcessNew string Stdio
  | ProcessCreate string string string
  | ProcessStartCall string
  | SendTaskResumed string

record scale_wrapper =
  sw_containers :: "string \<rightharpoonup> runc_Container"
  sw_originalProcess :: "process option"
  sw_scaledDown :: bool
  sw_netNSPath :: string
  sw_trace :: "task_event list"
  sw_logs :: "logentry list"

text \<open>
  What the surroundings answer.  The \<^verbatim>\<open>NewConfig\<close> this file calls takes the spec alone and
  gives a single port; it is not among the sources and its answer is part of the
  environment, as are the activator's and the runtime's.
\<close>

record scale_env =
  se_svc_Start :: "error + StartResponse"
  se_container_Process :: "runc_Container \<Rightarrow> string \<Rightarrow> error + process"
  se_IsSandboxContainer :: "string \<Rightarrow> error + bool"
  se_RemoveAll :: "string \<Rightarrow> error option"
  se_Checkpoint :: "CheckpointConfig \<Rightarrow> error option"
  se_ReadFile :: "string \<Rightarrow> error + string"
  se_GetSpec :: "string \<Rightarrow> error + annotations"
  se_GetNetworkNS :: "annotations \<Rightarrow> error + string"
  se_NewConfig :: "annotations \<Rightarrow> error + 16 word"
  se_NewServer :: "error option"
  se_srv_Start :: "error option"
  se_GetNS :: "string \<Rightarrow> error option"
  se_removeCriuIPTablesRules :: "error option"

definition emit1 :: "task_event \<Rightarrow> scale_wrapper \<Rightarrow> scale_wrapper" where
  "emit1 ev s = s\<lparr>sw_trace := sw_trace s @ [ev]\<rparr>"

definition log1 :: "level \<Rightarrow> string \<Rightarrow> logarg list \<Rightarrow> scale_wrapper \<Rightarrow> scale_wrapper" where
  "log1 lv fmt args s = s\<lparr>sw_logs := sw_logs s @ [(lv, fmt, args)]\<rparr>"

text \<open>
  \<^verbatim>\<open>StartZeropod\<close>: the activator is created and started.  The two closures handed to
  \<^verbatim>\<open>srv.Start\<close> run later, when a connection arrives, and are not part of this call.
\<close>

definition StartZeropod ::
  "scale_env \<Rightarrow> runc_Container \<Rightarrow> scale_wrapper \<Rightarrow> unit outcome \<times> scale_wrapper" where
  "StartZeropod en container s =
     (case se_GetSpec en (c_Bundle container) of
        Inl e \<Rightarrow> (Fail e, s)
      | Inr annots \<Rightarrow>
     (case (if length (sw_netNSPath s) = 0
            then (case se_GetNetworkNS en annots of
                    Inl e \<Rightarrow> Inl e
                  | Inr nspath \<Rightarrow> Inr (s\<lparr>sw_netNSPath := nspath\<rparr>))
            else Inr s) of
        Inl e \<Rightarrow> (Fail e, s)
      | Inr s1 \<Rightarrow>
     (case se_NewConfig en annots of
        Inl e \<Rightarrow> (Fail e, s1)
      | Inr port \<Rightarrow>
     (let s2 = emit1 (ActivatorNewServer port (sw_netNSPath s1))
                 (log1 Info ''starting activator with config: %v'' [] s1)
      in case se_NewServer en of
           Some e \<Rightarrow> (Fail e, s2)
         | None \<Rightarrow>
     (let s3 = emit1 ActivatorStart (emit1 ShutdownRegisterCallback s2)
      in case se_srv_Start en of
           Some e \<Rightarrow> (Fail e, log1 Error ''failed to start server: %s'' [LErr e] s3)
         | None \<Rightarrow> (Return (), log1 Info ''activator started'' [] s3))))))"

text \<open>
  The \<^verbatim>\<open>CheckpointConfig\<close> literal of \<^verbatim>\<open>scaleDown\<close>, for the bundle of the container and the
  work directory \<^verbatim>\<open>scaleDown\<close> has computed.
\<close>

definition checkpoint_config :: "string \<Rightarrow> string \<Rightarrow> CheckpointConfig" where
  "checkpoint_config bundle workDir = \<lparr>
     cc_Path = containerDir bundle,
     cc_WorkDir = workDir,
     cc_Exit = True,
     cc_AllowOpenTCP = True,
     cc_AllowExternalUnixSockets = True,
     cc_AllowTerminal = False,
     cc_FileLocks = False,
     cc_EmptyNamespaces = [] \<rparr>"

text \<open>
  \<^verbatim>\<open>scaleDown\<close>.  \<^verbatim>\<open>Return ()\<close> is the nil error.  In the failure branch the \<^verbatim>\<open>err\<close> that is
  returned is the one of \<^verbatim>\<open>os.ReadFile\<close>, declared in that block: nil when the log was
  read.  The type assertion on the process panics for a process that is not an init
  process.
\<close>

definition scaleDown ::
  "scale_env \<Rightarrow> runc_Container \<Rightarrow> process \<Rightarrow> scale_wrapper \<Rightarrow> unit outcome \<times> scale_wrapper" where
  "scaleDown en container p s =
     (let sdir = snapshotDir (c_Bundle container);
          s0 = emit1 (OsRemoveAll sdir) s
      in case se_RemoveAll en sdir of
           Some e \<Rightarrow> (Fail (ErrWrap ''unable to prepare snapshot dir'' (Some e)), s0)
         | None \<Rightarrow>
     (let workDir = path_Join [sdir, ''work''];
          s1 = log1 Info ''checkpointing process %d of container to %s''
                 [LInt (p_Pid p), LStr sdir] s0;
          s2 = s1\<lparr>sw_scaledDown := True\<rparr>
      in if \<not> p_Init p then (Panic ''interface conversion: not *process.Init'', s2)
         else
     (let cfg = checkpoint_config (c_Bundle container) workDir;
          s3 = emit1 (InitCheckpoint cfg) s2
      in case se_Checkpoint en cfg of
           Some e \<Rightarrow>
             (let s4 = log1 Error ''error checkpointing container: %s'' [LErr e]
                         (s3\<lparr>sw_scaledDown := False\<rparr>);
                  dump = path_Join [workDir, ''dump.log''];
                  s5 = emit1 (OsReadFile dump) s4
              in case se_ReadFile en dump of
                   Inl re \<Rightarrow>
                     (Fail re,
                      log1 Error ''dump.log: %s'' [LBytes []]
                        (log1 Error ''error reading dump.log: %s'' [LErr re] s5))
                 | Inr b \<Rightarrow> (Return (), log1 Error ''dump.log: %s'' [LBytes b] s5))
         | None \<Rightarrow>
             (let s4 = log1 Info ''starting zeropod'' []
                         (emit1 (SendTaskCheckpointed (c_ID container)) s3)
              in case StartZeropod en container s4 of
                   (Fail e, s5) \<Rightarrow> (Fail e, log1 Error ''unable to start zeropod: %s'' [LErr e] s5)
                 | (ShimExit n, s5) \<Rightarrow> (ShimExit n, s5)
                 | (Panic m, s5) \<Rightarrow> (Panic m, s5)
                 | (Return u, s5) \<Rightarrow>
                     (let s6 = emit1 (NsGetNS (sw_netNSPath s5)) s5
                      in case se_GetNS en (sw_netNSPath s5) of
                           Some e \<Rightarrow> (Fail e, s6)
                         | None \<Rightarrow>
                             (let s7 = emit1 RemoveCriuIPTablesRules s6
                              in case se_removeCriuIPTablesRules en of
                                   Some e \<Rightarrow>
                                     (Fail e, log1 Error ''unable to restore iptables: %s'' [LErr e] s7)
                                 | None \<Rightarrow> (Return (), log1 Info ''restored iptables'' [] s7)))))))"

definition getContainer1 :: "scale_wrapper \<Rightarrow> string \<Rightarrow> error + runc_Container" where
  "getContainer1 s cid =
     (case sw_containers s cid of None \<Rightarrow> Inl (ErrNotFound cid) | Some c \<Rightarrow> Inr c)"

text \<open>
  \<^verbatim>\<open>wrapper.Start\<close> of the second file.  An error of \<^verbatim>\<open>scaleDown\<close> is answered with a
  response built from the PID and a nil error.
\<close>

definition scale_Start ::
  "scale_env \<Rightarrow> StartRequest \<Rightarrow> scale_wrapper \<Rightarrow> StartResponse outcome \<times> scale_wrapper" where
  "scale_Start en r s =
     (let s0 = emit1 (ServiceStart (sr_ID r) (sr_ExecID r)) s
      in case se_svc_Start en of
           Inl e \<Rightarrow> (Fail e, s0)
         | Inr resp \<Rightarrow>
     (case getContainer1 s0 (sr_ID r) of
           Inl e \<Rightarrow> (Fail e, s0)
         | Inr container \<Rightarrow>
     (case se_container_Process en container (sr_ExecID r) of
           Inl e \<Rightarrow> (Fail (ErrWrap ''grpc'' (Some e)), s0)
         | Inr p \<Rightarrow>
     (case se_IsSandboxContainer en (c_Bundle container) of
           Inl e \<Rightarrow> (Fail e, s0)
         | Inr sandboxContainer \<Rightarrow>
             if \<not> sandboxContainer \<and> length (sr_ExecID r) = 0 then
               (let s1 = emit1 (TimeSleep 2) (s0\<lparr>sw_originalProcess := Some p\<rparr>)
                in case scaleDown en container p s1 of
                     (Fail e, s2) \<Rightarrow> (Return \<lparr>resp_Pid = word_of_int (p_Pid p)\<rparr>, s2)
                   | (Return u, s2) \<Rightarrow> (Return resp, s2)
                   | (ShimExit n, s2) \<Rightarrow> (ShimExit n, s2)
                   | (Panic m, s2) \<Rightarrow> (Panic m, s2))
             else (Return resp, s0)))))"

section \<open>The restore of the first service (second file under src/unnamed)\<close>

definition strings_HasPrefix :: "string \<Rightarrow> string \<Rightarrow> bool" where
  "strings_HasPrefix s pre = (length pre \<le> length s \<and> take (length pre) s = pre)"

definition strings_HasSuffix :: "string \<Rightarrow> string \<Rightarrow> bool" where
  "strings_HasSuffix s suf = (length suf \<le> length s \<and> drop (length s - length suf) s = suf)"

definition strings_TrimPrefix :: "string \<Rightarrow> string \<Rightarrow> string" where
  "strings_TrimPrefix s pre = (if strings_HasPrefix s pre then drop (length pre) s else s)"

definition strings_TrimSuffix :: "string \<Rightarrow> string \<Rightarrow> string" where
  "strings_TrimSuffix s suf =
     (if strings_HasSuffix s suf then take (length s - length suf) s else s)"

record restore_service =
  rs_stdio :: Stdio
  rs_trace :: "task_event list"

record restore_env =
  re_newID :: string
  re_Create :: "error option"
  re_Start :: "error option"

text \<open>
  \<^verbatim>\<open>service.restore\<close>.  The container id is replaced by a digest of the time, taken from
  the environment.  The four assignments to \<^verbatim>\<open>s.stdio\<close> are kept one by one: the third
  and the fourth both read \<^verbatim>\<open>s.stdio.Stdout\<close>.  The result is the stdio handed to
  \<^verbatim>\<open>process.New\<close>, or the error.
\<close>

definition service_restore ::
  "restore_env \<Rightarrow> runc_Container \<Rightarrow> restore_service
     \<Rightarrow> (error + Stdio) \<times> runc_Container \<times> restore_service" where
  "service_restore en container0 s =
     (let container = container0\<lparr>c_ID := re_newID en\<rparr>;
          s1 = s\<lparr>rs_stdio := (rs_stdio s)\<lparr>Stdout := strings_TrimPrefix (Stdout (rs_stdio s)) ''file://''\<rparr>\<rparr>;
          s2 = s1\<lparr>rs_stdio := (rs_stdio s1)\<lparr>Stdout := strings_TrimSuffix (Stdout (rs_stdio s1)) ''-1''\<rparr>\<rparr>;
          s3 = s2\<lparr>rs_stdio := (rs_stdio s2)\<lparr>Stderr := strings_TrimPrefix (Stdout (rs_stdio s2)) ''file://''\<rparr>\<rparr>;
          s4 = s3\<lparr>rs_stdio := (rs_stdio s3)\<lparr>Stderr := strings_TrimSuffix (Stdout (rs_stdio s3)) ''-1''\<rparr>\<rparr>;
          pstdio = \<lparr> Stdin = [],
                     Stdout = ''file://'' @ Stdout (rs_stdio s4) @ ''-1'',
                     Stderr = ''file://'' @ Stderr (rs_stdio s4) @ ''-1'' \<rparr>;
          s5 = s4\<lparr>rs_trace := rs_trace s4 @
                 [ProcessNew (c_ID container) pstdio,
                  ProcessCreate (c_ID container) (c_Bundle container)
                    (containerDir (c_Bundle container))]\<rparr>
      in case re_Create en of
           Some e \<Rightarrow> (Inl (ErrWrap ''creation failed during restore'' (Some e)), container, s5)
         | None \<Rightarrow>
             (let s6 = s5\<lparr>rs_trace := rs_trace s5 @ [ProcessStartCall (c_ID container)]\<rparr>
              in case re_Start en of
                   Some e \<Rightarrow> (Inl (ErrWrap ''start failed during restore'' (Some e)), container, s6)
                 | None \<Rightarrow>
                     (Inr pstdio, container,
                      s6\<lparr>rs_trace := rs_trace s6 @ [SendTaskResumed (c_ID container)]\<rparr>)))"


section \<open>Predicates and concrete inputs used in the statements\<close>

text \<open>
  A mapping of the ports-map annotation that makes \<^verbatim>\<open>NewConfig\<close> fail for the container
  named \<open>cname\<close>: it does not split into exactly two parts at \<^verbatim>\<open>=\<close>, or it is a mapping
  of this very container and one of its ports is not a 16-bit unsigned decimal.
\<close>

definition bad_mapping :: "string \<Rightarrow> string \<Rightarrow> bool" where
  "bad_mapping cname mapping =
     (case strings_Split mapping mapDelim of
        [name, ports] \<Rightarrow>
          name = cname \<and> (\<exists>port \<in> set (strings_Split ports portsDelim). isl (ParseUint16 port))
      | _ \<Rightarrow> True)"

text \<open>The calls of \<^verbatim>\<open>handleProcessExit\<close> in a trace, in order.\<close>

fun forwarded :: "event list \<Rightarrow> (Exit \<times> runc_Container \<times> pref) list" where
  "forwarded [] = []"
| "forwarded (HandleProcessExit e c p # evs) = (e, c, p) # forwarded evs"
| "forwarded (ev # evs) = forwarded evs"

text \<open>The calls of \<^verbatim>\<open>Checkpoint\<close> in a trace, and the calls on the activator.\<close>

fun checkpoints :: "task_event list \<Rightarrow> CheckpointConfig list" where
  "checkpoints [] = []"
| "checkpoints (InitCheckpoint cfg # evs) = cfg # checkpoints evs"
| "checkpoints (ev # evs) = checkpoints evs"

fun activator_calls :: "task_event list \<Rightarrow> task_event list" where
  "activator_calls [] = []"
| "activator_calls (ActivatorNewServer port ns # evs) =
     ActivatorNewServer port ns # activator_calls evs"
| "activator_calls (ActivatorStart # evs) = ActivatorStart # activator_calls evs"
| "activator_calls (ev # evs) = activator_calls evs"

text \<open>The stdio of the processes created by \<^verbatim>\<open>process.New\<close> in a trace.\<close>

fun new_processes :: "task_event list \<Rightarrow> Stdio list" where
  "new_processes [] = []"
| "new_processes (ProcessNew cid st # evs) = st # new_processes evs"
| "new_processes (ev # evs) = new_processes evs"

text \<open>
  The checkpoint options as the specification lists them, with the two directories
  written as the bundle path followed by the literal suffix.
\<close>

definition checkpoint_options_spec :: "string \<Rightarrow> CheckpointConfig" where
  "checkpoint_options_spec bundle = \<lparr>
     cc_Path = bundle @ ''/snapshots/container'',
     cc_WorkDir = bundle @ ''/snapshots/work'',
     cc_Exit = True,
     cc_AllowOpenTCP = True,
     cc_AllowExternalUnixSockets = True,
     cc_AllowTerminal = False,
     cc_FileLocks = False,
     cc_EmptyNamespaces = [] \<rparr>"

text \<open>
  A bundle path as the shim receives it: rooted, with at least one element, every
  element a plain name (not empty, no slash, neither \<^verbatim>\<open>.\<close> nor \<^verbatim>\<open>..\<close>).
\<close>

definition plain_name :: "string \<Rightarrow> bool" where
  "plain_name el = (el \<noteq> [] \<and> CHR ''/'' \<notin> set el \<and> el \<noteq> ''.'' \<and> el \<noteq> ''..'')"

definition rooted_path :: "string list \<Rightarrow> string" where
  "rooted_path els = ''/'' @ strings_Join els ''/''"

definition noDuration :: "string \<Rightarrow> error + int" where
  "noDuration s = Inl (ErrDuration s)"

definition proc0 :: process where
  "proc0 = \<lparr>p_ID = ''c1'', p_Pid = 42, p_Init = True,
     p_Stdio = \<lparr>Stdin = [], Stdout = ''/run/io/c1-stdout'', Stderr = ''/run/io/c1-stderr''\<rparr>,
     p_exited = None\<rparr>"

definition cont1 :: runc_Container where
  "cont1 = \<lparr>c_ptr = 1, c_ID = ''c1'', c_Bundle = ''/run/bundle/c1''\<rparr>"

definition wrapper0 :: wrapper where
  "wrapper0 = \<lparr>zeropodContainers = Map.empty, containers = [''c1'' \<mapsto> cont1],
     running = (\<lambda>pid. []), pendingExecs = (\<lambda>c. 0), exitSubscribers = [],
     procs = (\<lambda>p. proc0), shutdownCallbacks = [], trace = [], logs = []\<rparr>"

definition zc1 :: "Config \<Rightarrow> runc_Container \<Rightarrow> zeropod_Container" where
  "zc1 cfg c = \<lparr>zc_Container = c, zc_cfg = cfg, zc_process = 7, zc_initialProcess = Some 7,
     zc_scaledDown = False, zc_preRestore = None, zc_postRestore = None,
     zc_activatorRunning = False\<rparr>"

definition env0 :: "annotations \<Rightarrow> env" where
  "env0 annots = \<lparr>svc_Start = Inr \<lparr>resp_Pid = 42\<rparr>, svc_Exec = None, svc_Delete = None,
     svc_Kill = None, GetSpec = (\<lambda>bundle. Inr annots), ParseDuration = noDuration,
     GOARCH = ''amd64'', ctx_Namespace = None, zeropod_New = (\<lambda>cfg c. Inr (zc1 cfg c)),
     ScheduleScaleDown_err = None, process_Kill = (\<lambda>p. None),
     runc_NewContainer = (\<lambda>req. Inr \<lparr>c_ptr = 2, c_ID = ct_ID req, c_Bundle = ct_Bundle req\<rparr>),
     container_Process = (\<lambda>c. Inr 8), process_Start = (\<lambda>p. None),
     os_ReadFile = (\<lambda>path. Inl (ErrReadFile path)), DisableRedirects_err = None\<rparr>"

definition annots_other_bad :: annotations where
  "annots_other_bad = [(''zeropod.ctrox.dev/ports-map'', ''other=abc''),
                       (''io.kubernetes.cri.container-name'', ''app'')]"

definition annots_bad_port :: annotations where
  "annots_bad_port = [(''zeropod.ctrox.dev/ports-map'', ''app=80,http''),
                      (''io.kubernetes.cri.container-name'', ''app'')]"

definition annots_app :: annotations where
  "annots_app = [(''zeropod.ctrox.dev/ports-map'', ''app=80,8080''),
                 (''io.kubernetes.cri.container-name'', ''app''),
                 (''io.kubernetes.cri.container-type'', ''container'')]"

definition exit42 :: Exit where
  "exit42 = \<lparr>e_Pid = 42, e_Status = 0\<rparr>"

definition cfg0 :: Config where
  "cfg0 = \<lparr> ZeropodContainerNames = [], Ports = [80], ScaleDownDuration = defaultScaleDownDuration,
     DisableCheckpointing = False, PreDump = False, ContainerName = ''app'',
     ContainerType = ''container'', podName = ''pod'', podNamespace = ''default'',
     podUID = ''uid'', ContainerdNamespace = defaultContainerdNS, spec = [],
     vclusterPodName = [], vclusterPodNamespace = [] \<rparr>"

definition zc_down :: zeropod_Container where
  "zc_down = (zc1 cfg0 cont1)\<lparr>zc_scaledDown := True, zc_activatorRunning := True\<rparr>"

definition cp1 :: containerProcess where
  "cp1 = \<lparr>cp_Container = cont1, cp_Process = 7\<rparr>"

definition wrapper_down :: wrapper where
  "wrapper_down = wrapper0\<lparr>zeropodContainers := [''c1'' \<mapsto> zc_down],
                            running := (\<lambda>pid. [])(42 := [cp1])\<rparr>"

definition wrapper_pending :: wrapper where
  "wrapper_pending = wrapper0\<lparr>running := (\<lambda>pid. [])(42 := [cp1]),
                               pendingExecs := (\<lambda>c. 0)(1 := 1)\<rparr>"

definition wrapper_running :: wrapper where
  "wrapper_running = wrapper0\<lparr>running := (\<lambda>pid. [])(42 := [cp1])\<rparr>"


definition start_c1 :: StartRequest where
  "start_c1 = \<lparr>sr_ID = ''c1'', sr_ExecID = []\<rparr>"

definition start_exec :: StartRequest where
  "start_exec = \<lparr>sr_ID = ''c1'', sr_ExecID = ''exec1''\<rparr>"

definition exec_c1 :: ExecProcessRequest where
  "exec_c1 = \<lparr>er_ID = ''c1'', er_ExecID = ''exec1''\<rparr>"

definition env_start_fails :: env where
  "env_start_fails = (env0 annots_app)\<lparr>
     process_Start := (\<lambda>p. Some (ErrRuntime ''criu restore failed'')),
     os_ReadFile := (\<lambda>path. if path = ''/run/bundle/c1/work/restore.log''
                              then Inr ''Error (criu/cr-restore.c): Restoring FAILED.''
                              else Inl (ErrReadFile path))\<rparr>"

definition scale_wrapper0 :: scale_wrapper where
  "scale_wrapper0 = \<lparr>sw_containers = [''c1'' \<mapsto> cont1], sw_originalProcess = None,
     sw_scaledDown = False, sw_netNSPath = [], sw_trace = [], sw_logs = []\<rparr>"

definition scale_env_fail :: scale_env where
  "scale_env_fail = \<lparr>
     se_svc_Start = Inr \<lparr>resp_Pid = 42\<rparr>,
     se_container_Process = (\<lambda>c execid. Inr proc0),
     se_IsSandboxContainer = (\<lambda>bundle. Inr False),
     se_RemoveAll = (\<lambda>path. None),
     se_Checkpoint = (\<lambda>cfg. Some (ErrRuntime ''criu dump failed'')),
     se_ReadFile = (\<lambda>path. if path = ''/run/bundle/c1/snapshots/work/dump.log''
                             then Inr ''Error (criu/cr-dump.c): Dumping FAILED.''
                             else Inl (ErrReadFile path)),
     se_GetSpec = (\<lambda>bundle. Inr annots_app),
     se_GetNetworkNS = (\<lambda>annots. Inr ''/proc/42/ns/net''),
     se_NewConfig = (\<lambda>annots. Inr 80),
     se_NewServer = None,
     se_srv_Start = None,
     se_GetNS = (\<lambda>path. None),
     se_removeCriuIPTablesRules = None\<rparr>"

definition restore_env0 :: restore_env where
  "restore_env0 = \<lparr>re_newID = ''9f86d081884c7d65'', re_Create = None, re_Start = None\<rparr>"

definition restore_service_once :: restore_service where
  "restore_service_once = \<lparr>
     rs_stdio = \<lparr>Stdin = [], Stdout = ''file:///var/log/app-1'', Stderr = ''file:///var/log/err-1''\<rparr>,
     rs_trace = []\<rparr>"

definition restore_service_twice :: restore_service where
  "restore_service_twice = \<lparr>
     rs_stdio = \<lparr>Stdin = [], Stdout = ''file:///var/log/app-1-1'', Stderr = ''file:///var/log/err-1''\<rparr>,
     rs_trace = []\<rparr>"

definition annots_vcluster :: annotations where
  "annots_vcluster = [(''io.kubernetes.cri.sandbox-name'', ''app-x-default-x-vc''),
                      (''io.kubernetes.cri.sandbox-namespace'', ''vcluster-ns''),
                      (''vcluster.loft.sh/Name'', ''app'')]"

text \<open>
  Annotations whose keys differ from the tags in letter case, and one whose key holds the
  Kelvin sign in place of \<^verbatim>\<open>k\<close>.
\<close>

definition annots_Ports_Map :: annotations where
  "annots_Ports_Map = [(''zeropod.ctrox.dev/Ports-Map'', ''app=http''),
                       (''io.kubernetes.cri.container-name'', ''app'')]"

definition annots_Container_Name :: annotations where
  "annots_Container_Name = [(''zeropod.ctrox.dev/ports-map'', ''=abc''),
                            (''io.kubernetes.cri.Container-Name'', ''app'')]"

definition annots_Container_Names :: annotations where
  "annots_Container_Names = [(''zeropod.ctrox.dev/Container-Names'', ''other''),
                             (''io.kubernetes.cri.container-name'', ''app''),
                             (''io.kubernetes.cri.container-type'', ''container'')]"

definition annots_Kelvin :: annotations where
  "annots_Kelvin = [(''io.'' @ [CHR 0xE2, CHR 0x84, CHR 0xAA] @ ''ubernetes.cri.container-name'', ''app''),
                    (''IO.KUBERNETES.CRI.CONTAINER-NAME'', ''other'')]"

section \<open>Properties\<close>

subsection \<open>Frame lemmas for the trace and the log\<close>

lemma emit_simps [simp]:
  "zeropodContainers (emit ev w) = zeropodContainers w"
  "containers (emit ev w) = containers w"
  "running (emit ev w) = running w"
  "pendingExecs (emit ev w) = pendingExecs w"
  "procs (emit ev w) = procs w"
  "logs (emit ev w) = logs w"
  "shutdownCallbacks (emit ev w) = shutdownCallbacks w"
  "trace (emit ev w) = trace w @ [ev]"
  by (simp_all add: emit_def)

lemma log_simps [simp]:
  "zeropodContainers (log lv f a w) = zeropodContainers w"
  "containers (log lv f a w) = containers w"
  "running (log lv f a w) = running w"
  "pendingExecs (log lv f a w) = pendingExecs w"
  "procs (log lv f a w) = procs w"
  "trace (log lv f a w) = trace w"
  "shutdownCallbacks (log lv f a w) = shutdownCallbacks w"
  "logs (log lv f a w) = logs w @ [(lv, f, a)]"
  by (simp_all add: log_def)

subsection \<open>The configuration\<close>

lemma parse_ports_isl:
  "isl (parse_ports ps acc) = (\<exists>port \<in> set ps. isl (ParseUint16 port))"
  by (induction ps arbitrary: acc) (auto split: sum.splits)

lemma parse_mappings_isl:
  "isl (parse_mappings cname ms acc) = (\<exists>m \<in> set ms. bad_mapping cname m)"
proof (induction ms arbitrary: acc)
  case Nil
  then show ?case by simp
next
  case (Cons m ms)
  consider (two) name ports where "strings_Split m mapDelim = [name, ports]"
    | (other) "\<forall>name ports. strings_Split m mapDelim \<noteq> [name, ports]"
    by blast
  then show ?case
  proof cases
    case two
    show ?thesis
    proof (cases "name = cname")
      case False
      with two have "\<not> bad_mapping cname m" by (simp add: bad_mapping_def)
      moreover from two False
      have "parse_mappings cname (m # ms) acc = parse_mappings cname ms acc" by simp
      ultimately show ?thesis using Cons.IH by simp
    next
      case True
      show ?thesis
      proof (cases "parse_ports (strings_Split ports portsDelim) acc")
        case (Inl e)
        then have "isl (parse_ports (strings_Split ports portsDelim) acc)" by simp
        then have "bad_mapping cname m"
          using two True by (simp add: bad_mapping_def parse_ports_isl)
        moreover from two True Inl have "isl (parse_mappings cname (m # ms) acc)" by simp
        ultimately show ?thesis by simp
      next
        case (Inr acc')
        then have "\<not> isl (parse_ports (strings_Split ports portsDelim) acc)" by simp
        then have "\<not> bad_mapping cname m"
          using two True by (simp add: bad_mapping_def parse_ports_isl)
        moreover from two True Inr
        have "parse_mappings cname (m # ms) acc = parse_mappings cname ms acc'" by simp
        ultimately show ?thesis using Cons.IH by simp
      qed
    qed
  next
    case other
    then have "bad_mapping cname m"
      by (simp add: bad_mapping_def split: list.splits)
    moreover from other have "parse_mappings cname (m # ms) acc = Inl ErrInvalidPortMap"
      by (simp split: list.splits)
    ultimately show ?thesis by simp
  qed
qed

lemma NewConfig_portmap_isl:
  assumes "field annots ''zeropod.ctrox.dev/ports-map'' \<noteq> []"
    and "isl (parse_mappings (field annots ''io.kubernetes.cri.container-name'')
            (strings_Split (field annots ''zeropod.ctrox.dev/ports-map'') mappingDelim) [])"
  shows "isl (NewConfig pd ga ns annots)"
  using assms
  by (cases "parse_mappings (field annots ''io.kubernetes.cri.container-name'')
            (strings_Split (field annots ''zeropod.ctrox.dev/ports-map'') mappingDelim) []")
     (simp_all add: NewConfig_def Let_def mapstructure_Decode_def)

lemma Start_config_error:
  assumes "svc_Start en = Inr resp" "containers w (sr_ID r) = Some c"
    "GetSpec en (c_Bundle c) = Inr annots"
    "NewConfig (ParseDuration en) (GOARCH en) (ctx_Namespace en) annots = Inl e"
  shows "fst (wrapper_Start en r w) = Fail e"
    and "zeropodContainers (snd (wrapper_Start en r w)) = zeropodContainers w"
  using assms by (simp_all add: wrapper_Start_def getContainer_def Let_def)

lemma NewConfig_portmap_ok:
  assumes "\<not> (field annots ''zeropod.ctrox.dev/ports-map'' \<noteq> [] \<and>
              isl (parse_mappings (field annots ''io.kubernetes.cri.container-name'')
                (strings_Split (field annots ''zeropod.ctrox.dev/ports-map'') mappingDelim) []))"
    and "field annots ''zeropod.ctrox.dev/scaledown-duration'' = []"
    and "field annots ''zeropod.ctrox.dev/disable-checkpointing'' = []"
    and "field annots ''zeropod.ctrox.dev/pre-dump'' = []"
  shows "\<not> isl (NewConfig pd ga ns annots)"
proof (cases "field annots ''zeropod.ctrox.dev/ports-map'' = []")
  case True
  with assms(2-4) show ?thesis
    by (simp add: NewConfig_def Let_def mapstructure_Decode_def)
next
  case False
  with assms(1) obtain ports where
    "parse_mappings (field annots ''io.kubernetes.cri.container-name'')
       (strings_Split (field annots ''zeropod.ctrox.dev/ports-map'') mappingDelim) [] = Inr ports"
    by (cases "parse_mappings (field annots ''io.kubernetes.cri.container-name'')
       (strings_Split (field annots ''zeropod.ctrox.dev/ports-map'') mappingDelim) []") auto
  with False assms(2-4) show ?thesis
    by (simp add: NewConfig_def Let_def mapstructure_Decode_def)
qed

text \<open>
  C8, as amended.  When the ports-map annotation is not empty and one of its mappings
  does not split into exactly two parts at \<^verbatim>\<open>=\<close>, or is a mapping of this container with
  a port that is not a 16-bit unsigned decimal, \<^verbatim>\<open>NewConfig\<close> returns an error, and a
  \<^verbatim>\<open>Start\<close> that reaches the decode returns that error and registers no container.  A
  mapping of two parts for another container name is never such a mapping, whatever its
  ports; and when there is no such mapping and the duration and the two boolean
  annotations are empty, \<^verbatim>\<open>NewConfig\<close> returns a configuration.  The annotation values are
  the ones \<^verbatim>\<open>mapstructure\<close> decodes, keys matched without regard to letter case when the
  exact key is absent.
\<close>

theorem NewConfig_malformed_ports_map:
  "(field annots ''zeropod.ctrox.dev/ports-map'' \<noteq> [] \<and>
    (\<exists>m \<in> set (strings_Split (field annots ''zeropod.ctrox.dev/ports-map'') mappingDelim).
        bad_mapping (field annots ''io.kubernetes.cri.container-name'') m) \<longrightarrow>
      isl (NewConfig pd ga ns annots) \<and>
      (svc_Start en = Inr resp \<and> containers w (sr_ID r) = Some c \<and>
       GetSpec en (c_Bundle c) = Inr annots \<longrightarrow>
         (\<exists>e. fst (wrapper_Start en r w) = Fail e) \<and>
         zeropodContainers (snd (wrapper_Start en r w)) = zeropodContainers w)) \<and>
   (\<not> (field annots ''zeropod.ctrox.dev/ports-map'' \<noteq> [] \<and>
        (\<exists>m \<in> set (strings_Split (field annots ''zeropod.ctrox.dev/ports-map'') mappingDelim).
            bad_mapping (field annots ''io.kubernetes.cri.container-name'') m)) \<and>
    field annots ''zeropod.ctrox.dev/scaledown-duration'' = [] \<and>
    field annots ''zeropod.ctrox.dev/disable-checkpointing'' = [] \<and>
    field annots ''zeropod.ctrox.dev/pre-dump'' = [] \<longrightarrow>
      \<not> isl (NewConfig pd ga ns annots)) \<and>
   (strings_Split mapping mapDelim = [name, ports] \<and> name \<noteq> cname \<longrightarrow>
      \<not> bad_mapping cname mapping)"
proof -
  let ?pm = "field annots ''zeropod.ctrox.dev/ports-map''"
  let ?cn = "field annots ''io.kubernetes.cri.container-name''"
  have fails: "isl (NewConfig pd ga ns annots) \<and>
      (svc_Start en = Inr resp \<and> containers w (sr_ID r) = Some c \<and>
       GetSpec en (c_Bundle c) = Inr annots \<longrightarrow>
         (\<exists>e. fst (wrapper_Start en r w) = Fail e) \<and>
         zeropodContainers (snd (wrapper_Start en r w)) = zeropodContainers w)"
    if ne: "?pm \<noteq> []" and ex: "\<exists>m \<in> set (strings_Split ?pm mappingDelim). bad_mapping ?cn m"
  proof -
    have bad: "isl (parse_mappings ?cn (strings_Split ?pm mappingDelim) [])"
      using ex by (simp add: parse_mappings_isl)
    have all: "isl (NewConfig pd' ga' ns' annots)" for pd' ga' ns'
      using NewConfig_portmap_isl [OF ne bad] .
    obtain e where "NewConfig (ParseDuration en) (GOARCH en) (ctx_Namespace en) annots = Inl e"
      using all [of "ParseDuration en" "GOARCH en" "ctx_Namespace en"]
      by (cases "NewConfig (ParseDuration en) (GOARCH en) (ctx_Namespace en) annots") auto
    with all show ?thesis
      by (auto simp: Start_config_error)
  qed
  have succeeds: "\<not> isl (NewConfig pd ga ns annots)"
    if "\<not> (?pm \<noteq> [] \<and> (\<exists>m \<in> set (strings_Split ?pm mappingDelim). bad_mapping ?cn m))"
      and "field annots ''zeropod.ctrox.dev/scaledown-duration'' = []"
      and "field annots ''zeropod.ctrox.dev/disable-checkpointing'' = []"
      and "field annots ''zeropod.ctrox.dev/pre-dump'' = []"
    using that by (intro NewConfig_portmap_ok) (simp_all add: parse_mappings_isl)
  have other: "\<not> bad_mapping cname mapping"
    if "strings_Split mapping mapDelim = [name, ports]" and "name \<noteq> cname"
    using that by (simp add: bad_mapping_def)
  from fails succeeds other show ?thesis by blast
qed

theorem NewConfig_malformed_ports_map_witness:
  "field annots_bad_port ''zeropod.ctrox.dev/ports-map'' \<noteq> [] \<and>
   (\<exists>m \<in> set (strings_Split (field annots_bad_port ''zeropod.ctrox.dev/ports-map'') mappingDelim).
       bad_mapping (field annots_bad_port ''io.kubernetes.cri.container-name'') m) \<and>
   isl (NewConfig noDuration ''amd64'' None annots_bad_port) \<and>
   (\<exists>e. fst (wrapper_Start (env0 annots_bad_port) \<lparr>sr_ID = ''c1'', sr_ExecID = []\<rparr> wrapper0)
     = Fail e) \<and>
   field annots_Ports_Map ''zeropod.ctrox.dev/ports-map'' = ''app=http'' \<and>
   isl (NewConfig noDuration ''amd64'' None annots_Ports_Map) \<and>
   field annots_Container_Name ''io.kubernetes.cri.container-name'' = ''app'' \<and>
   \<not> isl (NewConfig noDuration ''amd64'' None annots_Container_Name)"
proof -
  let ?pm = "''zeropod.ctrox.dev/ports-map''"
  let ?cn = "''io.kubernetes.cri.container-name''"
  have h1: "field annots_bad_port ?pm \<noteq> []"
    by code_simp
  have h2: "\<exists>m \<in> set (strings_Split (field annots_bad_port ?pm) mappingDelim).
       bad_mapping (field annots_bad_port ?cn) m"
    by code_simp
  have h3: "svc_Start (env0 annots_bad_port) = Inr \<lparr>resp_Pid = 42\<rparr>"
    "containers wrapper0 (sr_ID \<lparr>sr_ID = ''c1'', sr_ExecID = []\<rparr>) = Some cont1"
    "GetSpec (env0 annots_bad_port) (c_Bundle cont1) = Inr annots_bad_port"
    by (simp_all add: env0_def wrapper0_def)
  from NewConfig_malformed_ports_map [of annots_bad_port noDuration "''amd64''" None
      "env0 annots_bad_port" "\<lparr>resp_Pid = 42\<rparr>" wrapper0 "\<lparr>sr_ID = ''c1'', sr_ExecID = []\<rparr>" cont1]
    h1 h2 h3
  have a: "isl (NewConfig noDuration ''amd64'' None annots_bad_port) \<and>
     (\<exists>e. fst (wrapper_Start (env0 annots_bad_port) \<lparr>sr_ID = ''c1'', sr_ExecID = []\<rparr> wrapper0)
     = Fail e)" by blast
  have k1: "field annots_Ports_Map ?pm = ''app=http''" by code_simp
  have k2: "field annots_Ports_Map ?pm \<noteq> []"
    "\<exists>m \<in> set (strings_Split (field annots_Ports_Map ?pm) mappingDelim).
       bad_mapping (field annots_Ports_Map ?cn) m"
    by code_simp+
  from NewConfig_malformed_ports_map [of annots_Ports_Map noDuration "''amd64''" None] k2
  have b: "isl (NewConfig noDuration ''amd64'' None annots_Ports_Map)" by blast
  have n1: "field annots_Container_Name ?cn = ''app''" by code_simp
  have n2: "\<not> (field annots_Container_Name ?pm \<noteq> [] \<and>
        (\<exists>m \<in> set (strings_Split (field annots_Container_Name ?pm) mappingDelim).
            bad_mapping (field annots_Container_Name ?cn) m))"
    "field annots_Container_Name ''zeropod.ctrox.dev/scaledown-duration'' = []"
    "field annots_Container_Name ''zeropod.ctrox.dev/disable-checkpointing'' = []"
    "field annots_Container_Name ''zeropod.ctrox.dev/pre-dump'' = []"
    by code_simp+
  from NewConfig_malformed_ports_map [of annots_Container_Name noDuration "''amd64''" None] n2
  have c: "\<not> isl (NewConfig noDuration ''amd64'' None annots_Container_Name)" by blast
  from h1 h2 a k1 b n1 c show ?thesis by blast
qed

theorem NewConfig_other_container_counterexample:
  "isl (ParseUint16 ''abc'') \<and>
   \<not> isl (NewConfig noDuration ''amd64'' None annots_other_bad)"
  by code_simp

lemma NewConfig_Inr_fields:
  assumes "NewConfig pd ga ns annots = Inr cfg"
  shows "vclusterPodName cfg = field annots ''vcluster.loft.sh/name''"
    and "vclusterPodNamespace cfg = field annots ''vcluster.loft.sh/namespace''"
    and "podName cfg = field annots ''io.kubernetes.cri.sandbox-name''"
    and "podNamespace cfg = field annots ''io.kubernetes.cri.sandbox-namespace''"
    and "ContainerName cfg = field annots ''io.kubernetes.cri.container-name''"
    and "ContainerType cfg = field annots ''io.kubernetes.cri.container-type''"
proof -
  from assms have
    "vclusterPodName cfg = ann_VClusterPodName (mapstructure_Decode annots) \<and>
     vclusterPodNamespace cfg = ann_VClusterPodNamespace (mapstructure_Decode annots) \<and>
     podName cfg = ann_PodName (mapstructure_Decode annots) \<and>
     podNamespace cfg = ann_PodNamespace (mapstructure_Decode annots) \<and>
     ContainerName cfg = ann_ContainerName (mapstructure_Decode annots) \<and>
     ContainerType cfg = ann_ContainerType (mapstructure_Decode annots)"
    unfolding NewConfig_def Let_def
    by (clarsimp split: sum.splits)
  then show "vclusterPodName cfg = field annots ''vcluster.loft.sh/name''"
    and "vclusterPodNamespace cfg = field annots ''vcluster.loft.sh/namespace''"
    and "podName cfg = field annots ''io.kubernetes.cri.sandbox-name''"
    and "podNamespace cfg = field annots ''io.kubernetes.cri.sandbox-namespace''"
    and "ContainerName cfg = field annots ''io.kubernetes.cri.container-name''"
    and "ContainerType cfg = field annots ''io.kubernetes.cri.container-type''"
    by (simp_all add: mapstructure_Decode_def)
qed

lemma field_EqualFold_examples:
  "field annots_vcluster ''vcluster.loft.sh/name'' = ''app''"
  "field annots_Kelvin ''io.kubernetes.cri.container-name'' = ''app''"
  "field (rev annots_Kelvin) ''io.kubernetes.cri.container-name'' = ''other''"
  "field annots_Container_Names ''zeropod.ctrox.dev/container-names'' = ''other''"
  "field annots_app ''zeropod.ctrox.dev/container-names'' = []"
  by code_simp+

lemma NewConfig_folded_keys:
  "NewConfig noDuration ''amd64'' None annots_Ports_Map = Inl (ErrSyntax ''http'')"
  "(case NewConfig noDuration ''amd64'' None annots_Container_Names of
      Inl e \<Rightarrow> False
    | Inr cfg \<Rightarrow> ZeropodContainerNames cfg = [''other''] \<and> \<not> IsZeropodContainer cfg)"
  "fst (wrapper_Start (env0 annots_Container_Names) \<lparr>sr_ID = ''c1'', sr_ExecID = []\<rparr> wrapper0)
     = Return \<lparr>resp_Pid = 42\<rparr>"
  "zeropodContainers
     (snd (wrapper_Start (env0 annots_Container_Names) \<lparr>sr_ID = ''c1'', sr_ExecID = []\<rparr> wrapper0))
     ''c1'' = None"
  "fst (wrapper_Start (env0 annots_Ports_Map) \<lparr>sr_ID = ''c1'', sr_ExecID = ''exec1''\<rparr> wrapper0)
     = Fail (ErrSyntax ''http'')"
  by code_simp+

text \<open>
  C10.  \<^verbatim>\<open>PodName\<close> is the vcluster pod name when that is not empty and the host pod name
  otherwise; \<^verbatim>\<open>PodNamespace\<close> likewise with the namespaces.  For a configuration decoded by
  \<^verbatim>\<open>NewConfig\<close> these are the values of the vcluster and of the sandbox annotations.
\<close>

theorem Config_PodName_PodNamespace:
  "PodName cfg = (if vclusterPodName cfg \<noteq> [] then vclusterPodName cfg else HostPodName cfg) \<and>
   PodNamespace cfg =
     (if vclusterPodNamespace cfg \<noteq> [] then vclusterPodNamespace cfg else HostPodNamespace cfg) \<and>
   (NewConfig pd ga ns annots = Inr cfg' \<longrightarrow>
      PodName cfg' =
        (if field annots ''vcluster.loft.sh/name'' \<noteq> [] then field annots ''vcluster.loft.sh/name''
         else field annots ''io.kubernetes.cri.sandbox-name'') \<and>
      PodNamespace cfg' =
        (if field annots ''vcluster.loft.sh/namespace'' \<noteq> []
         then field annots ''vcluster.loft.sh/namespace''
         else field annots ''io.kubernetes.cri.sandbox-namespace''))"
proof -
  have direct: "PodName c = (if vclusterPodName c \<noteq> [] then vclusterPodName c else HostPodName c)"
    "PodNamespace c =
       (if vclusterPodNamespace c \<noteq> [] then vclusterPodNamespace c else HostPodNamespace c)" for c
    by (simp_all add: PodName_def PodNamespace_def HostPodName_def HostPodNamespace_def)
  have "PodName cfg' =
        (if field annots ''vcluster.loft.sh/name'' \<noteq> [] then field annots ''vcluster.loft.sh/name''
         else field annots ''io.kubernetes.cri.sandbox-name'') \<and>
      PodNamespace cfg' =
        (if field annots ''vcluster.loft.sh/namespace'' \<noteq> []
         then field annots ''vcluster.loft.sh/namespace''
         else field annots ''io.kubernetes.cri.sandbox-namespace'')"
    if "NewConfig pd ga ns annots = Inr cfg'"
    using NewConfig_Inr_fields(1-4) [OF that]
    by (simp add: PodName_def PodNamespace_def)
  with direct show ?thesis by blast
qed

theorem Config_PodName_PodNamespace_witness:
  "(case NewConfig noDuration ''amd64'' None annots_vcluster of
      Inl e \<Rightarrow> False
    | Inr cfg \<Rightarrow> PodName cfg = ''app'' \<and> PodNamespace cfg = ''vcluster-ns'')"
proof -
  have "\<not> isl (NewConfig noDuration ''amd64'' None annots_vcluster)" by code_simp
  then obtain cfg where c: "NewConfig noDuration ''amd64'' None annots_vcluster = Inr cfg"
    by (cases "NewConfig noDuration ''amd64'' None annots_vcluster") auto
  have f: "field annots_vcluster ''vcluster.loft.sh/name'' = ''app''"
    "field annots_vcluster ''vcluster.loft.sh/namespace'' = []"
    "field annots_vcluster ''io.kubernetes.cri.sandbox-namespace'' = ''vcluster-ns''"
    by code_simp+
  from Config_PodName_PodNamespace [of cfg noDuration "''amd64''" None annots_vcluster cfg] c
  have "PodName cfg =
        (if field annots_vcluster ''vcluster.loft.sh/name'' \<noteq> []
         then field annots_vcluster ''vcluster.loft.sh/name''
         else field annots_vcluster ''io.kubernetes.cri.sandbox-name'')"
    and "PodNamespace cfg =
        (if field annots_vcluster ''vcluster.loft.sh/namespace'' \<noteq> []
         then field annots_vcluster ''vcluster.loft.sh/namespace''
         else field annots_vcluster ''io.kubernetes.cri.sandbox-namespace'')"
    by blast+
  then have "PodName cfg = ''app'' \<and> PodNamespace cfg = ''vcluster-ns''"
    by (simp add: f)
  with c show ?thesis by simp
qed

subsection \<open>Kill\<close>

lemma process_SetExited_simps [simp]:
  "zeropodContainers (process_SetExited p st w) = zeropodContainers w"
  "containers (process_SetExited p st w) = containers w"
  "running (process_SetExited p st w) = running w"
  "pendingExecs (process_SetExited p st w) = pendingExecs w"
  "logs (process_SetExited p st w) = logs w"
  "trace (process_SetExited p st w) = trace w @ [SetExited p st]"
  "p_exited (procs (process_SetExited p st w) q) = (if q = p then Some st else p_exited (procs w q))"
  "p_ID (procs (process_SetExited p st w) q) = p_ID (procs w q)"
  "p_Pid (procs (process_SetExited p st w) q) = p_Pid (procs w q)"
  "p_Init (procs (process_SetExited p st w) q) = p_Init (procs w q)"
  by (simp_all add: process_SetExited_def)

lemma Container_Stop_simps [simp]:
  "containers (Container_Stop cid w) = containers w"
  "running (Container_Stop cid w) = running w"
  "pendingExecs (Container_Stop cid w) = pendingExecs w"
  "procs (Container_Stop cid w) = procs w"
  "logs (Container_Stop cid w) = logs w"
  "trace (Container_Stop cid w) = trace w @ [ContainerStop cid]"
  by (simp_all add: Container_Stop_def split: option.splits)


lemma service_Kill_simps [simp]:
  "fst (service_Kill en r w) = (case svc_Kill en of None \<Rightarrow> Return () | Some e \<Rightarrow> Fail e)"
  "zeropodContainers (snd (service_Kill en r w)) = zeropodContainers w"
  "procs (snd (service_Kill en r w)) = procs w"
  "logs (snd (service_Kill en r w)) = logs w"
  "trace (snd (service_Kill en r w)) =
     trace w @ [DelegateKill (kr_ID r) (kr_ExecID r) (kr_Signal r) (kr_All r)]"
  by (simp_all add: service_Kill_def)



subsection \<open>The exit loop\<close>

lemma forwarded_append: "forwarded (xs @ ys) = forwarded xs @ forwarded ys"
  by (induction xs rule: forwarded.induct) simp_all

lemma preventExit_frame:
  "zeropodContainers (snd (preventExit w cp)) = zeropodContainers w"
  "running (snd (preventExit w cp)) = running w"
  "forwarded (trace (snd (preventExit w cp))) = forwarded (trace w)"
  by (simp_all add: preventExit_def getZeropodContainer_def forwarded_append
      split: option.splits)

lemma preventExit_scaled_down:
  assumes "getZeropodContainer w (c_ID (cp_Container cp)) = Some zc" and "zc_scaledDown zc"
  shows "fst (preventExit w cp) = Return True"
  using assms by (simp add: preventExit_def)

lemma preventExit_outcome:
  "(\<exists>b. fst (preventExit w cp) = Return b) \<or> (\<exists>m. fst (preventExit w cp) = Panic m)"
  by (auto simp: preventExit_def split: option.splits)

lemma preventExit_loop_frame:
  "zeropodContainers (snd (preventExit_loop w cps pe)) = zeropodContainers w \<and>
   running (snd (preventExit_loop w cps pe)) = running w \<and>
   forwarded (trace (snd (preventExit_loop w cps pe))) = forwarded (trace w)"
proof (induction cps arbitrary: w pe)
  case Nil
  then show ?case by simp
next
  case (Cons cp cps)
  obtain out w' where step: "preventExit w cp = (out, w')" by (cases "preventExit w cp")
  have fr: "zeropodContainers w' = zeropodContainers w" "running w' = running w"
    "forwarded (trace w') = forwarded (trace w)"
    using preventExit_frame [of w cp] step by simp_all
  show ?case
  proof (cases out)
    case (Return b)
    with step Cons.IH [of w' "if b then True else pe"] fr show ?thesis by simp
  qed (use step fr in simp_all)
qed

lemma preventExit_loop_outcome:
  "(\<exists>b. fst (preventExit_loop w cps pe) = Return b \<and> (pe \<longrightarrow> b)) \<or>
   (\<exists>m. fst (preventExit_loop w cps pe) = Panic m)"
proof (induction cps arbitrary: w pe)
  case Nil
  then show ?case by simp
next
  case (Cons cp cps)
  obtain out w' where step: "preventExit w cp = (out, w')" by (cases "preventExit w cp")
  from preventExit_outcome [of w cp] step
  consider b where "out = Return b" | m where "out = Panic m" by auto
  then show ?case
  proof cases
    case 1
    with step Cons.IH [of w' "if b then True else pe"] show ?thesis by auto
  next
    case 2
    with step show ?thesis by simp
  qed
qed

lemma preventExit_loop_hit:
  assumes "cp \<in> set cps"
    and "getZeropodContainer w (c_ID (cp_Container cp)) = Some zc"
    and "zc_scaledDown zc"
  shows "fst (preventExit_loop w cps pe) = Return True \<or>
         (\<exists>m. fst (preventExit_loop w cps pe) = Panic m)"
  using assms
proof (induction cps arbitrary: w pe)
  case Nil
  then show ?case by simp
next
  case (Cons c cps)
  obtain out w' where step: "preventExit w c = (out, w')" by (cases "preventExit w c")
  have zcs: "zeropodContainers w' = zeropodContainers w"
    using preventExit_frame(1) [of w c] step by simp
  show ?case
  proof (cases "c = cp")
    case True
    with Cons.prems step have out: "out = Return True"
      using preventExit_scaled_down [of w cp zc] by simp
    from preventExit_loop_outcome [of w' cps True]
    show ?thesis using step out by auto
  next
    case False
    with Cons.prems have mem: "cp \<in> set cps" by simp
    have get: "getZeropodContainer w' (c_ID (cp_Container cp)) = Some zc"
      using Cons.prems(2) zcs by (simp add: getZeropodContainer_def)
    from preventExit_outcome [of w c] step
    consider b where "out = Return b" | m where "out = Panic m" by auto
    then show ?thesis
    proof cases
      case 1
      with step Cons.IH [OF mem get Cons.prems(3), of "if b then True else pe"]
      show ?thesis by simp
    next
      case 2
      with step show ?thesis by simp
    qed
  qed
qed

text \<open>
  C2.  When a pair found at the PID of an exit event belongs to a managed container that
  is scaled down, the pass for that event forwards nothing to \<^verbatim>\<open>handleProcessExit\<close> and
  leaves the \<^verbatim>\<open>running\<close> map as it was.
\<close>

theorem processExit_scaled_down_suppressed:
  assumes "cp \<in> set (running w (e_Pid e))"
    and "getZeropodContainer w (c_ID (cp_Container cp)) = Some zc"
    and "zc_scaledDown zc"
  shows "forwarded (trace (snd (processExit e w))) = forwarded (trace w) \<and>
         running (snd (processExit e w)) = running w \<and>
         (fst (processExit e w) = Return () \<or> (\<exists>m. fst (processExit e w) = Panic m))"
proof -
  obtain out w1 where loop: "preventExit_loop w (running w (e_Pid e)) False = (out, w1)"
    by (cases "preventExit_loop w (running w (e_Pid e)) False")
  have fr: "running w1 = running w" "forwarded (trace w1) = forwarded (trace w)"
    using preventExit_loop_frame [of w "running w (e_Pid e)" False] loop by simp_all
  from preventExit_loop_hit [OF assms, of False] loop
  consider "out = Return True" | m where "out = Panic m" by auto
  then show ?thesis
  proof cases
    case 1
    with loop fr show ?thesis by (simp add: processExit_def Let_def)
  next
    case 2
    with loop fr show ?thesis by (simp add: processExit_def Let_def)
  qed
qed

theorem processExit_scaled_down_suppressed_witness:
  "cp1 \<in> set (running wrapper_down (e_Pid exit42)) \<and>
   getZeropodContainer wrapper_down (c_ID (cp_Container cp1)) = Some zc_down \<and>
   zc_scaledDown zc_down \<and>
   forwarded (trace (snd (processExit exit42 wrapper_down))) = [] \<and>
   running (snd (processExit exit42 wrapper_down)) 42 = [cp1]"
proof -
  have h1: "cp1 \<in> set (running wrapper_down (e_Pid exit42))"
    by (simp add: wrapper_down_def wrapper0_def exit42_def)
  have h2: "getZeropodContainer wrapper_down (c_ID (cp_Container cp1)) = Some zc_down"
    by (simp add: getZeropodContainer_def wrapper_down_def wrapper0_def cp1_def cont1_def)
  have h3: "zc_scaledDown zc_down" by (simp add: zc_down_def)
  have v: "trace wrapper_down = []" "running wrapper_down 42 = [cp1]"
    by (simp_all add: wrapper_down_def wrapper0_def)
  from processExit_scaled_down_suppressed [OF h1 h2 h3] h1 h2 h3
  show ?thesis by (simp add: v)
qed

lemma skip_loop_eq:
  "skip_loop w xs skipped cps =
     (skipped @ filter (\<lambda>cp. p_Init (procs w (cp_Process cp)) \<and>
                               pendingExecs w (c_ptr (cp_Container cp)) \<noteq> 0) xs,
      cps @ filter (\<lambda>cp. \<not> (p_Init (procs w (cp_Process cp)) \<and>
                                pendingExecs w (c_ptr (cp_Container cp)) \<noteq> 0)) xs)"
  by (induction xs arbitrary: skipped cps) simp_all

lemma handle_loop_trace:
  "trace (handle_loop e cps w) =
     trace w @ map (\<lambda>cp. HandleProcessExit e (cp_Container cp) (cp_Process cp)) cps"
  by (induction cps arbitrary: w) simp_all

lemma handle_loop_running: "running (handle_loop e cps w) = running w"
  by (induction cps arbitrary: w) simp_all

lemma forwarded_handles:
  "forwarded (map (\<lambda>cp. HandleProcessExit e (cp_Container cp) (cp_Process cp)) cps) =
     map (\<lambda>cp. (e, cp_Container cp, cp_Process cp)) cps"
  by (induction cps) simp_all

lemma preventExit_loop_unmanaged:
  assumes "\<forall>cp \<in> set cps. getZeropodContainer w (c_ID (cp_Container cp)) = None"
  shows "preventExit_loop w cps pe = (Return pe, w)"
  using assms by (induction cps arbitrary: pe) (simp_all add: preventExit_def)

lemma processExit_unmanaged:
  assumes "\<forall>cp \<in> set (running w (e_Pid e)). getZeropodContainer w (c_ID (cp_Container cp)) = None"
  shows "forwarded (trace (snd (processExit e w))) =
           forwarded (trace w) @
           map (\<lambda>cp. (e, cp_Container cp, cp_Process cp))
             (running w (e_Pid e) @
              filter (\<lambda>cp. \<not> (p_Init (procs w (cp_Process cp)) \<and>
                                 pendingExecs w (c_ptr (cp_Container cp)) \<noteq> 0))
                (running w (e_Pid e)))"
    and "running (snd (processExit e w)) (e_Pid e) =
           filter (\<lambda>cp. p_Init (procs w (cp_Process cp)) \<and>
                          pendingExecs w (c_ptr (cp_Container cp)) \<noteq> 0)
             (running w (e_Pid e))"
  using preventExit_loop_unmanaged [OF assms, of False]
  by (simp_all add: processExit_def Let_def skip_loop_eq handle_loop_trace forwarded_append
      forwarded_handles handle_loop_running)

text \<open>
  C3.  The pass for an exit event forwards every pair found at the PID, the init process
  of a container with pending execs included, and forwards the pairs it does not skip a
  second time: \<^verbatim>\<open>cps\<close> starts as the pairs found at the PID and the second loop appends to
  it.  Here one container holds the init process 7 at PID 42, first with one pending exec,
  then with none.
\<close>

theorem processExit_pending_exec_forwarded:
  "forwarded (trace (snd (processExit exit42 wrapper_pending))) = [(exit42, cont1, 7)] \<and>
   running (snd (processExit exit42 wrapper_pending)) 42 = [cp1] \<and>
   forwarded (trace (snd (processExit exit42 wrapper_running))) =
     [(exit42, cont1, 7), (exit42, cont1, 7)] \<and>
   running (snd (processExit exit42 wrapper_running)) 42 = []"
  by code_simp

subsection \<open>Start\<close>

lemma Start_gate_ignored:
  assumes "svc_Start en = Inr resp" and "containers w (sr_ID r) = Some c"
    and "GetSpec en (c_Bundle c) = Inr annots"
    and "NewConfig (ParseDuration en) (GOARCH en) (ctx_Namespace en) annots = Inr cfg"
    and "ContainerType cfg = containerTypeSandbox \<or> sr_ExecID r \<noteq> [] \<or> \<not> IsZeropodContainer cfg"
  shows "fst (wrapper_Start en r w) = Return resp"
    and "zeropodContainers (snd (wrapper_Start en r w)) = zeropodContainers w"
    and "shutdownCallbacks (snd (wrapper_Start en r w)) = shutdownCallbacks w"
    and "trace (snd (wrapper_Start en r w)) = trace w @ [DelegateStart (sr_ID r) (sr_ExecID r)]"
  using assms by (auto simp: wrapper_Start_def getContainer_def Let_def)

lemma Start_gate_managed:
  assumes "svc_Start en = Inr resp" and "containers w (sr_ID r) = Some c"
    and "GetSpec en (c_Bundle c) = Inr annots"
    and "NewConfig (ParseDuration en) (GOARCH en) (ctx_Namespace en) annots = Inr cfg"
    and "\<not> (ContainerType cfg = containerTypeSandbox \<or> sr_ExecID r \<noteq> [] \<or> \<not> IsZeropodContainer cfg)"
    and "fst (wrapper_Start en r w) = Return resp'"
  shows "resp' = resp \<and>
         (\<exists>zc0. zeropod_New en cfg c = Inr zc0 \<and>
            zeropodContainers (snd (wrapper_Start en r w)) =
              (zeropodContainers w)(sr_ID r \<mapsto>
                 zc0\<lparr>zc_preRestore := Some WrapperHook, zc_postRestore := Some WrapperHook\<rparr>)) \<and>
         shutdownCallbacks (snd (wrapper_Start en r w)) = shutdownCallbacks w @ [sr_ID r] \<and>
         trace (snd (wrapper_Start en r w)) =
           trace w @ [DelegateStart (sr_ID r) (sr_ExecID r), RegisterPreRestore (sr_ID r),
                      RegisterPostRestore (sr_ID r), RegisterShutdownCallback (sr_ID r),
                      ScheduleScaleDown (sr_ID r)]"
proof -
  from assms(5) have gate: "ContainerType cfg \<noteq> containerTypeSandbox" "sr_ExecID r = []"
    "IsZeropodContainer cfg" by auto
  show ?thesis
  proof (cases "zeropod_New en cfg c")
    case (Inl e)
    with assms(1-4,6) gate show ?thesis
      by (simp add: wrapper_Start_def getContainer_def Let_def)
  next
    case (Inr zc0)
    show ?thesis
    proof (cases "ScheduleScaleDown_err en")
      case None
      with Inr assms(1-4,6) gate show ?thesis
        by (simp add: wrapper_Start_def getContainer_def Let_def)
    next
      case (Some e)
      with Inr assms(1-4,6) gate show ?thesis
        by (simp add: wrapper_Start_def getContainer_def Let_def)
    qed
  qed
qed

lemma Start_Return_steps:
  assumes "fst (wrapper_Start en r w) = Return resp'"
  shows "\<exists>c annots cfg. svc_Start en = Inr resp' \<and> containers w (sr_ID r) = Some c \<and>
           GetSpec en (c_Bundle c) = Inr annots \<and>
           NewConfig (ParseDuration en) (GOARCH en) (ctx_Namespace en) annots = Inr cfg"
proof -
  obtain resp where 1: "svc_Start en = Inr resp"
    using assms by (cases "svc_Start en") (simp_all add: wrapper_Start_def Let_def)
  obtain c where 2: "containers w (sr_ID r) = Some c"
    using assms 1 by (cases "containers w (sr_ID r)")
      (simp_all add: wrapper_Start_def getContainer_def Let_def)
  obtain annots where 3: "GetSpec en (c_Bundle c) = Inr annots"
    using assms 1 2 by (cases "GetSpec en (c_Bundle c)")
      (simp_all add: wrapper_Start_def getContainer_def Let_def)
  obtain cfg where 4: "NewConfig (ParseDuration en) (GOARCH en) (ctx_Namespace en) annots = Inr cfg"
    using assms 1 2 3
    by (cases "NewConfig (ParseDuration en) (GOARCH en) (ctx_Namespace en) annots")
      (simp_all add: wrapper_Start_def getContainer_def Let_def)
  have "resp' = resp"
  proof (cases "ContainerType cfg = containerTypeSandbox \<or> sr_ExecID r \<noteq> [] \<or> \<not> IsZeropodContainer cfg")
    case True
    from Start_gate_ignored(1) [OF 1 2 3 4 True] assms show ?thesis by simp
  next
    case False
    from Start_gate_managed [OF 1 2 3 4 False assms] show ?thesis by simp
  qed
  with 1 2 3 4 show ?thesis by blast
qed

lemma NewConfig_annots_app:
  "(case NewConfig noDuration ''amd64'' None annots_app of
      Inl e \<Rightarrow> False
    | Inr cfg \<Rightarrow> ContainerType cfg = ''container'' \<and> IsZeropodContainer cfg \<and> Ports cfg = [80, 8080])"
  by code_simp

text \<open>
  C7, as amended.  When the delegate's Start, the lookup of the container, the reading
  of its spec and the decoding of its annotations succeed, a Start with an exec id, of a
  sandbox container or of a container that is not selected returns the delegate's
  response and registers nothing; every other Start that returns a response returns the
  delegate's, has stored a new managed container holding both restore callbacks under
  the id, appended the shutdown callback and scheduled the countdown, in this order.
\<close>

theorem Start_ignored_or_managed:
  assumes "svc_Start en = Inr resp" and "containers w (sr_ID r) = Some c"
    and "GetSpec en (c_Bundle c) = Inr annots"
    and "NewConfig (ParseDuration en) (GOARCH en) (ctx_Namespace en) annots = Inr cfg"
  shows "(ContainerType cfg = containerTypeSandbox \<or> sr_ExecID r \<noteq> [] \<or> \<not> IsZeropodContainer cfg \<longrightarrow>
            fst (wrapper_Start en r w) = Return resp \<and>
            zeropodContainers (snd (wrapper_Start en r w)) = zeropodContainers w \<and>
            shutdownCallbacks (snd (wrapper_Start en r w)) = shutdownCallbacks w \<and>
            trace (snd (wrapper_Start en r w)) = trace w @ [DelegateStart (sr_ID r) (sr_ExecID r)]) \<and>
         (\<not> (ContainerType cfg = containerTypeSandbox \<or> sr_ExecID r \<noteq> [] \<or> \<not> IsZeropodContainer cfg) \<and>
          fst (wrapper_Start en r w) = Return resp' \<longrightarrow>
            resp' = resp \<and>
            (\<exists>zc0. zeropod_New en cfg c = Inr zc0 \<and>
               zeropodContainers (snd (wrapper_Start en r w)) =
                 (zeropodContainers w)(sr_ID r \<mapsto>
                    zc0\<lparr>zc_preRestore := Some WrapperHook, zc_postRestore := Some WrapperHook\<rparr>)) \<and>
            shutdownCallbacks (snd (wrapper_Start en r w)) = shutdownCallbacks w @ [sr_ID r] \<and>
            trace (snd (wrapper_Start en r w)) =
              trace w @ [DelegateStart (sr_ID r) (sr_ExecID r), RegisterPreRestore (sr_ID r),
                         RegisterPostRestore (sr_ID r), RegisterShutdownCallback (sr_ID r),
                         ScheduleScaleDown (sr_ID r)])"
  using Start_gate_ignored [OF assms] Start_gate_managed [OF assms] by blast

theorem Start_ignored_or_managed_witness:
  "fst (wrapper_Start (env0 annots_app) start_exec wrapper0) = Return \<lparr>resp_Pid = 42\<rparr> \<and>
   zeropodContainers (snd (wrapper_Start (env0 annots_app) start_exec wrapper0)) ''c1'' = None \<and>
   fst (wrapper_Start (env0 annots_app) start_c1 wrapper0) = Return \<lparr>resp_Pid = 42\<rparr> \<and>
   zeropodContainers (snd (wrapper_Start (env0 annots_app) start_c1 wrapper0)) ''c1'' \<noteq> None \<and>
   shutdownCallbacks (snd (wrapper_Start (env0 annots_app) start_c1 wrapper0)) = [''c1''] \<and>
   trace (snd (wrapper_Start (env0 annots_app) start_c1 wrapper0)) =
     [DelegateStart ''c1'' [], RegisterPreRestore ''c1'', RegisterPostRestore ''c1'',
      RegisterShutdownCallback ''c1'', ScheduleScaleDown ''c1'']"
proof -
  let ?en = "env0 annots_app"
  obtain cfg where cfg: "NewConfig noDuration ''amd64'' None annots_app = Inr cfg"
    and ty: "ContainerType cfg = ''container''" and sel: "IsZeropodContainer cfg"
    using NewConfig_annots_app
    by (cases "NewConfig noDuration ''amd64'' None annots_app") auto
  have h1: "svc_Start ?en = Inr \<lparr>resp_Pid = 42\<rparr>" by (simp add: env0_def)
  have h2: "containers wrapper0 (sr_ID start_exec) = Some cont1"
    "containers wrapper0 (sr_ID start_c1) = Some cont1"
    by (simp_all add: wrapper0_def start_exec_def start_c1_def)
  have h3: "GetSpec ?en (c_Bundle cont1) = Inr annots_app" by (simp add: env0_def)
  have h4: "NewConfig (ParseDuration ?en) (GOARCH ?en) (ctx_Namespace ?en) annots_app = Inr cfg"
    using cfg by (simp add: env0_def)
  have ex: "sr_ExecID start_exec \<noteq> []" by (simp add: start_exec_def)
  have gate: "\<not> (ContainerType cfg = containerTypeSandbox \<or> sr_ExecID start_c1 \<noteq> [] \<or>
                 \<not> IsZeropodContainer cfg)"
    using ty sel by (simp add: containerTypeSandbox_def start_c1_def)
  have ret: "fst (wrapper_Start ?en start_c1 wrapper0) = Return \<lparr>resp_Pid = 42\<rparr>"
    by code_simp
  have v: "trace wrapper0 = []" "shutdownCallbacks wrapper0 = []"
    "zeropodContainers wrapper0 = Map.empty" "sr_ID start_c1 = ''c1''" "sr_ExecID start_c1 = []"
    "sr_ID start_exec = ''c1''"
    by (simp_all add: wrapper0_def start_c1_def start_exec_def)
  from Start_ignored_or_managed [OF h1 h2(1) h3 h4, of "\<lparr>resp_Pid = 42\<rparr>"] ex
  have a: "fst (wrapper_Start ?en start_exec wrapper0) = Return \<lparr>resp_Pid = 42\<rparr>"
    "zeropodContainers (snd (wrapper_Start ?en start_exec wrapper0)) ''c1'' = None"
    by (simp_all add: v)
  from Start_ignored_or_managed [OF h1 h2(2) h3 h4, of "\<lparr>resp_Pid = 42\<rparr>"] gate ret
  have b: "zeropodContainers (snd (wrapper_Start ?en start_c1 wrapper0)) ''c1'' \<noteq> None"
    "shutdownCallbacks (snd (wrapper_Start ?en start_c1 wrapper0)) = [''c1'']"
    "trace (snd (wrapper_Start ?en start_c1 wrapper0)) =
     [DelegateStart ''c1'' [], RegisterPreRestore ''c1'', RegisterPostRestore ''c1'',
      RegisterShutdownCallback ''c1'', ScheduleScaleDown ''c1'']"
    by (auto simp: v)
  from a b ret show ?thesis by simp
qed

theorem Start_exec_config_error_counterexample:
  "sr_ExecID start_exec \<noteq> [] \<and>
   svc_Start (env0 annots_bad_port) = Inr \<lparr>resp_Pid = 42\<rparr> \<and>
   fst (wrapper_Start (env0 annots_bad_port) start_exec wrapper0) = Fail (ErrSyntax ''http'')"
  by code_simp

subsection \<open>Restore and Exec\<close>

lemma service_Exec_simps [simp]:
  "fst (service_Exec en r w) = (case svc_Exec en of None \<Rightarrow> Return () | Some e \<Rightarrow> Fail e)"
  "trace (snd (service_Exec en r w)) = trace w @ [DelegateExec (er_ID r) (er_ExecID r)]"
  by (simp_all add: service_Exec_def)

lemma Restore_failed_start:
  assumes "zc_initialProcess zc = Some ip"
    and "runc_NewContainer en (restore_request zc (p_Stdio (procs w ip))) = Inr container"
    and "container_Process en container = Inr p"
    and "process_Start en p = Some e"
  shows "fst (Container_Restore en cid zc w) =
           Fail (ErrWrap ''start failed during restore''
                   (case os_ReadFile en (path_Join [c_Bundle container, ''work'', ''restore.log'']) of
                      Inl re \<Rightarrow> Some re | Inr b \<Rightarrow> None))"
    and "trace (snd (Container_Restore en cid zc w)) =
           trace w @ [NewContainer (restore_request zc (p_Stdio (procs w ip))),
                      CgroupSet (c_ID container)] @
           (case zc_preRestore zc of None \<Rightarrow> [] | Some h \<Rightarrow> [PreStart]) @
           [ProcessStart p, ReadFile (path_Join [c_Bundle container, ''work'', ''restore.log''])]"
    and "(Error, ''restore.log: %s'',
          [LBytes (case os_ReadFile en (path_Join [c_Bundle container, ''work'', ''restore.log'']) of
                     Inl re \<Rightarrow> [] | Inr b \<Rightarrow> b)])
           \<in> set (logs (snd (Container_Restore en cid zc w)))"
    and "zeropodContainers (snd (Container_Restore en cid zc w)) = zeropodContainers w"
  using assms
  by (simp_all add: Container_Restore_def Let_def split: sum.splits option.splits)

text \<open>
  C5.  When the restored process does not start, \<^verbatim>\<open>Restore\<close> reads \<^verbatim>\<open>work/restore.log\<close> under
  the bundle, writes its contents to the log and returns an error; an Exec on a managed
  container that is scaled down then ends the shim with exit status 1: the delegate's
  Exec is not called and the container is left as it was.
\<close>

theorem Restore_start_failure_exits_shim:
  assumes "zc_initialProcess zc = Some ip"
    and "runc_NewContainer en (restore_request zc (p_Stdio (procs w ip))) = Inr container"
    and "container_Process en container = Inr p"
    and "process_Start en p = Some e"
  shows "(\<exists>err. fst (Container_Restore en cid zc w) = Fail err) \<and>
         ReadFile (path_Join [c_Bundle container, ''work'', ''restore.log''])
           \<in> set (trace (snd (Container_Restore en cid zc w))) \<and>
         (Error, ''restore.log: %s'',
          [LBytes (case os_ReadFile en (path_Join [c_Bundle container, ''work'', ''restore.log'']) of
                     Inl re \<Rightarrow> [] | Inr b \<Rightarrow> b)])
           \<in> set (logs (snd (Container_Restore en cid zc w))) \<and>
         (getZeropodContainer w (er_ID r) = Some zc \<and> zc_scaledDown zc \<longrightarrow>
            fst (wrapper_Exec en r w) = ShimExit 1 \<and>
            trace (snd (wrapper_Exec en r w)) =
              trace w @ [CancelScaleDown (er_ID r),
                         NewContainer (restore_request zc (p_Stdio (procs w ip))),
                         CgroupSet (c_ID container)] @
              (case zc_preRestore zc of None \<Rightarrow> [] | Some h \<Rightarrow> [PreStart]) @
              [ProcessStart p, ReadFile (path_Join [c_Bundle container, ''work'', ''restore.log''])] \<and>
            zeropodContainers (snd (wrapper_Exec en r w)) = zeropodContainers w)"
proof -
  let ?w2 = "log Info ''got exec for scaled down container, restoring'' []
               (emit (CancelScaleDown (er_ID r)) w)"
  have req: "runc_NewContainer en (restore_request zc (p_Stdio (procs ?w2 ip))) = Inr container"
    using assms(2) by simp
  note R = Restore_failed_start [OF assms, of cid]
  note R2 = Restore_failed_start [OF assms(1) req assms(3,4), of "er_ID r"]
  have restore: "(\<exists>err. fst (Container_Restore en cid zc w) = Fail err)"
    using R(1) by simp
  have exec: "fst (wrapper_Exec en r w) = ShimExit 1 \<and>
            trace (snd (wrapper_Exec en r w)) =
              trace w @ [CancelScaleDown (er_ID r),
                         NewContainer (restore_request zc (p_Stdio (procs w ip))),
                         CgroupSet (c_ID container)] @
              (case zc_preRestore zc of None \<Rightarrow> [] | Some h \<Rightarrow> [PreStart]) @
              [ProcessStart p, ReadFile (path_Join [c_Bundle container, ''work'', ''restore.log''])] \<and>
            zeropodContainers (snd (wrapper_Exec en r w)) = zeropodContainers w"
    if m: "getZeropodContainer w (er_ID r) = Some zc" and sd: "zc_scaledDown zc"
  proof -
    obtain out w3 where run: "Container_Restore en (er_ID r) zc ?w2 = (out, w3)"
      by (cases "Container_Restore en (er_ID r) zc ?w2")
    from R2(1) run obtain err where out: "out = Fail err" by simp
    from R2(2,4) run have tr: "trace w3 =
              trace w @ [CancelScaleDown (er_ID r),
                         NewContainer (restore_request zc (p_Stdio (procs w ip))),
                         CgroupSet (c_ID container)] @
              (case zc_preRestore zc of None \<Rightarrow> [] | Some h \<Rightarrow> [PreStart]) @
              [ProcessStart p, ReadFile (path_Join [c_Bundle container, ''work'', ''restore.log''])]"
      and zcs: "zeropodContainers w3 = zeropodContainers w"
      by simp_all
    from m sd run out tr zcs show ?thesis
      by (simp add: wrapper_Exec_def Let_def)
  qed
  from restore R(2,3) exec show ?thesis by simp
qed

theorem Restore_start_failure_exits_shim_witness:
  "zc_initialProcess zc_down = Some 7 \<and>
   runc_NewContainer env_start_fails (restore_request zc_down (p_Stdio (procs wrapper_down 7)))
     = Inr \<lparr>c_ptr = 2, c_ID = ''c1'', c_Bundle = ''/run/bundle/c1''\<rparr> \<and>
   container_Process env_start_fails \<lparr>c_ptr = 2, c_ID = ''c1'', c_Bundle = ''/run/bundle/c1''\<rparr> = Inr 8 \<and>
   process_Start env_start_fails 8 = Some (ErrRuntime ''criu restore failed'') \<and>
   getZeropodContainer wrapper_down (er_ID exec_c1) = Some zc_down \<and> zc_scaledDown zc_down \<and>
   path_Join [''/run/bundle/c1'', ''work'', ''restore.log''] = ''/run/bundle/c1/work/restore.log'' \<and>
   (Error, ''restore.log: %s'', [LBytes ''Error (criu/cr-restore.c): Restoring FAILED.''])
     \<in> set (logs (snd (Container_Restore env_start_fails ''c1'' zc_down wrapper_down))) \<and>
   fst (wrapper_Exec env_start_fails exec_c1 wrapper_down) = ShimExit 1"
proof -
  let ?c = "\<lparr>c_ptr = 2, c_ID = ''c1'', c_Bundle = ''/run/bundle/c1''\<rparr>"
  have h1: "zc_initialProcess zc_down = Some 7" by (simp add: zc_down_def zc1_def)
  have h2: "runc_NewContainer env_start_fails
              (restore_request zc_down (p_Stdio (procs wrapper_down 7))) = Inr ?c"
    by (simp add: env_start_fails_def env0_def restore_request_def zc_down_def zc1_def cont1_def)
  have h3: "container_Process env_start_fails ?c = Inr 8"
    by (simp add: env_start_fails_def env0_def)
  have h4: "process_Start env_start_fails 8 = Some (ErrRuntime ''criu restore failed'')"
    by (simp add: env_start_fails_def)
  have h5: "getZeropodContainer wrapper_down (er_ID exec_c1) = Some zc_down"
    by (simp add: getZeropodContainer_def wrapper_down_def wrapper0_def exec_c1_def)
  have h6: "zc_scaledDown zc_down" by (simp add: zc_down_def)
  have pth: "path_Join [''/run/bundle/c1'', ''work'', ''restore.log''] = ''/run/bundle/c1/work/restore.log''"
    by code_simp
  have rd: "os_ReadFile env_start_fails ''/run/bundle/c1/work/restore.log''
              = Inr ''Error (criu/cr-restore.c): Restoring FAILED.''"
    by (simp add: env_start_fails_def)
  from Restore_start_failure_exits_shim [OF h1 h2 h3 h4, of "''c1''" exec_c1] h5 h6
  have "(Error, ''restore.log: %s'', [LBytes ''Error (criu/cr-restore.c): Restoring FAILED.''])
     \<in> set (logs (snd (Container_Restore env_start_fails ''c1'' zc_down wrapper_down)))"
    and "fst (wrapper_Exec env_start_fails exec_c1 wrapper_down) = ShimExit 1"
    by (simp_all add: pth rd)
  with h1 h2 h3 h4 h5 h6 pth show ?thesis by simp
qed

subsection \<open>Paths\<close>

lemma strings_Split_no_sep:
  "sep \<notin> set s \<Longrightarrow> strings_Split s sep = [s]"
  by (induction s) auto

lemma strings_Split_append:
  "sep \<notin> set a \<Longrightarrow> strings_Split (a @ sep # b) sep = a # strings_Split b sep"
  by (induction a) (auto split: list.splits)

lemma strings_Join_append:
  "els \<noteq> [] \<Longrightarrow> strings_Join (els @ [x]) sep = strings_Join els sep @ sep @ x"
  by (induction els sep rule: strings_Join.induct) simp_all

lemma strings_Split_Join:
  assumes "els \<noteq> []" and "\<forall>el \<in> set els. CHR ''/'' \<notin> set el"
  shows "strings_Split (strings_Join els ''/'') (CHR ''/'') = els"
  using assms
proof (induction els "''/''" rule: strings_Join.induct)
  case 1
  then show ?case by simp
next
  case (2 x)
  then show ?case by (simp add: strings_Split_no_sep)
next
  case (3 x y ys)
  then have "strings_Split (x @ CHR ''/'' # strings_Join (y # ys) ''/'') (CHR ''/'')
               = x # strings_Split (strings_Join (y # ys) ''/'') (CHR ''/'')"
    by (simp add: strings_Split_append)
  with 3 show ?case by simp
qed

lemma clean_elems_plain:
  "\<forall>el \<in> set els. plain_name el \<Longrightarrow> clean_elems rooted out els = rev out @ els"
  by (induction els arbitrary: out) (auto simp: plain_name_def)

lemma strings_Split_rooted_path:
  assumes "els \<noteq> []" and "\<forall>el \<in> set els. plain_name el"
  shows "strings_Split (rooted_path els) (CHR ''/'') = [] # els"
proof -
  have "\<forall>el \<in> set els. CHR ''/'' \<notin> set el" using assms(2) by (simp add: plain_name_def)
  from strings_Split_Join [OF assms(1) this] show ?thesis
    by (simp add: rooted_path_def)
qed

lemma path_Clean_rooted_path:
  assumes "els \<noteq> []" and "\<forall>el \<in> set els. plain_name el"
  shows "path_Clean (rooted_path els) = rooted_path els"
proof -
  have "clean_elems True [] ([] # els) = els"
    using clean_elems_plain [OF assms(2), of True "[]"] by simp
  then show ?thesis
    using strings_Split_rooted_path [OF assms]
    by (simp add: path_Clean_def Let_def) (simp add: rooted_path_def)
qed

lemma path_Join_rooted_path:
  assumes "els \<noteq> []" and "\<forall>el \<in> set els. plain_name el" and "plain_name name"
  shows "path_Join [rooted_path els, name] = rooted_path (els @ [name])"
proof -
  have ne: "rooted_path els \<noteq> []" "name \<noteq> []"
    using assms(3) by (simp_all add: rooted_path_def plain_name_def)
  have "strings_Join [rooted_path els, name] ''/'' = rooted_path (els @ [name])"
    using assms(1) by (simp add: rooted_path_def strings_Join_append)
  moreover have "path_Clean (rooted_path (els @ [name])) = rooted_path (els @ [name])"
    using assms by (intro path_Clean_rooted_path) auto
  ultimately show ?thesis using ne by (simp add: path_Join_def)
qed

lemma plain_names [simp]:
  "plain_name ''snapshots''" "plain_name ''container''" "plain_name ''work''"
  "plain_name ''dump.log''" "plain_name ''restore.log''"
  by (simp_all add: plain_name_def)

lemma snapshot_paths:
  assumes "els \<noteq> []" and "\<forall>el \<in> set els. plain_name el"
  shows "snapshotDir (rooted_path els) = rooted_path els @ ''/snapshots''"
    and "containerDir (rooted_path els) = rooted_path els @ ''/snapshots/container''"
    and "path_Join [snapshotDir (rooted_path els), ''work''] = rooted_path els @ ''/snapshots/work''"
    and "path_Join [path_Join [snapshotDir (rooted_path els), ''work''], ''dump.log'']
           = rooted_path els @ ''/snapshots/work/dump.log''"
proof -
  have a: "els @ [''snapshots''] \<noteq> []" "\<forall>el \<in> set (els @ [''snapshots'']). plain_name el"
    using assms by auto
  have b: "(els @ [''snapshots'']) @ [''work''] \<noteq> []"
    "\<forall>el \<in> set ((els @ [''snapshots'']) @ [''work'']). plain_name el"
    using assms by auto
  have sd: "snapshotDir (rooted_path els) = rooted_path (els @ [''snapshots''])"
    unfolding snapshotDir_def using assms by (intro path_Join_rooted_path) simp_all
  have cd: "containerDir (rooted_path els) = rooted_path ((els @ [''snapshots'']) @ [''container''])"
    unfolding containerDir_def sd using a by (intro path_Join_rooted_path) simp_all
  have wd: "path_Join [snapshotDir (rooted_path els), ''work'']
              = rooted_path ((els @ [''snapshots'']) @ [''work''])"
    unfolding sd using a by (intro path_Join_rooted_path) simp_all
  have dl: "path_Join [path_Join [snapshotDir (rooted_path els), ''work''], ''dump.log'']
              = rooted_path (((els @ [''snapshots'']) @ [''work'']) @ [''dump.log''])"
    unfolding wd using b by (intro path_Join_rooted_path) simp_all
  have r1: "rooted_path (xs @ [x]) = rooted_path xs @ ''/'' @ x" if "xs \<noteq> []" for xs x
    using that by (simp add: rooted_path_def strings_Join_append)
  have r2: "rooted_path (els @ [''snapshots'']) = rooted_path els @ ''/snapshots''"
    using r1 [OF assms(1), of "''snapshots''"] by simp
  have r3: "rooted_path ((els @ [''snapshots'']) @ [''work'']) = rooted_path els @ ''/snapshots/work''"
    using r1 [OF a(1), of "''work''"] r2 by simp
  show "snapshotDir (rooted_path els) = rooted_path els @ ''/snapshots''"
    using sd r2 by simp
  show "containerDir (rooted_path els) = rooted_path els @ ''/snapshots/container''"
    using cd r1 [OF a(1), of "''container''"] r2 by simp
  show "path_Join [snapshotDir (rooted_path els), ''work''] = rooted_path els @ ''/snapshots/work''"
    using wd r3 by simp
  show "path_Join [path_Join [snapshotDir (rooted_path els), ''work''], ''dump.log'']
           = rooted_path els @ ''/snapshots/work/dump.log''"
    using dl r1 [OF b(1), of "''dump.log''"] r3 by simp
qed

subsection \<open>Scale-down\<close>

lemma emit1_simps [simp]:
  "sw_containers (emit1 ev s) = sw_containers s"
  "sw_originalProcess (emit1 ev s) = sw_originalProcess s"
  "sw_scaledDown (emit1 ev s) = sw_scaledDown s"
  "sw_netNSPath (emit1 ev s) = sw_netNSPath s"
  "sw_logs (emit1 ev s) = sw_logs s"
  "sw_trace (emit1 ev s) = sw_trace s @ [ev]"
  by (simp_all add: emit1_def)

lemma log1_simps [simp]:
  "sw_containers (log1 lv f a s) = sw_containers s"
  "sw_originalProcess (log1 lv f a s) = sw_originalProcess s"
  "sw_scaledDown (log1 lv f a s) = sw_scaledDown s"
  "sw_netNSPath (log1 lv f a s) = sw_netNSPath s"
  "sw_trace (log1 lv f a s) = sw_trace s"
  "sw_logs (log1 lv f a s) = sw_logs s @ [(lv, f, a)]"
  by (simp_all add: log1_def)

lemma checkpoints_append: "checkpoints (xs @ ys) = checkpoints xs @ checkpoints ys"
  by (induction xs rule: checkpoints.induct) simp_all

lemma activator_calls_append:
  "activator_calls (xs @ ys) = activator_calls xs @ activator_calls ys"
  by (induction xs rule: activator_calls.induct) simp_all

lemma StartZeropod_checkpoints:
  "StartZeropod en c s = (out, s') \<Longrightarrow> checkpoints (sw_trace s') = checkpoints (sw_trace s)"
  by (auto simp: StartZeropod_def Let_def checkpoints_append
      split: sum.splits option.splits if_splits)

lemma scaleDown_checkpoints:
  "checkpoints (sw_trace (snd (scaleDown en c p s))) =
     checkpoints (sw_trace s) @
     (if se_RemoveAll en (snapshotDir (c_Bundle c)) = None \<and> p_Init p
      then [checkpoint_config (c_Bundle c) (path_Join [snapshotDir (c_Bundle c), ''work''])]
      else [])"
  by (auto simp: scaleDown_def Let_def checkpoints_append
      split: option.splits sum.splits prod.splits outcome.splits
      dest!: StartZeropod_checkpoints)

lemma scaleDown_checkpoint_failure:
  assumes "se_RemoveAll en (snapshotDir (c_Bundle c)) = None" and "p_Init p"
    and "se_Checkpoint en (checkpoint_config (c_Bundle c)
            (path_Join [snapshotDir (c_Bundle c), ''work''])) = Some e"
  shows "fst (scaleDown en c p s) =
           (case se_ReadFile en (path_Join [path_Join [snapshotDir (c_Bundle c), ''work''], ''dump.log'']) of
              Inl re \<Rightarrow> Fail re | Inr b \<Rightarrow> Return ())"
    and "sw_scaledDown (snd (scaleDown en c p s)) = False"
    and "sw_trace (snd (scaleDown en c p s)) =
           sw_trace s @
           [OsRemoveAll (snapshotDir (c_Bundle c)),
            InitCheckpoint (checkpoint_config (c_Bundle c)
              (path_Join [snapshotDir (c_Bundle c), ''work''])),
            OsReadFile (path_Join [path_Join [snapshotDir (c_Bundle c), ''work''], ''dump.log''])]"
    and "sw_logs (snd (scaleDown en c p s)) =
           sw_logs s @
           [(Info, ''checkpointing process %d of container to %s'',
               [LInt (p_Pid p), LStr (snapshotDir (c_Bundle c))]),
            (Error, ''error checkpointing container: %s'', [LErr e])] @
           (case se_ReadFile en (path_Join [path_Join [snapshotDir (c_Bundle c), ''work''], ''dump.log'']) of
              Inl re \<Rightarrow> [(Error, ''error reading dump.log: %s'', [LErr re]),
                         (Error, ''dump.log: %s'', [LBytes []])]
            | Inr b \<Rightarrow> [(Error, ''dump.log: %s'', [LBytes b])])"
  using assms by (simp_all add: scaleDown_def Let_def split: sum.splits)

text \<open>
  C6.  Every call of \<^verbatim>\<open>Checkpoint\<close> that \<^verbatim>\<open>scaleDown\<close> makes (one, once the snapshot
  directory is removed) passes the container directory and the work directory under
  the snapshot directory of the bundle, exit, open TCP and external unix sockets allowed,
  no terminal, no file locks and no empty namespaces; for a rooted bundle path of plain
  names the two directories are the bundle path followed by \<^verbatim>\<open>/snapshots/container\<close> and
  \<^verbatim>\<open>/snapshots/work\<close>.
\<close>

theorem scaleDown_checkpoint_options:
  "checkpoints (sw_trace (snd (scaleDown en c p s))) =
     checkpoints (sw_trace s) @
     (if se_RemoveAll en (snapshotDir (c_Bundle c)) = None \<and> p_Init p
      then [\<lparr> cc_Path = containerDir (c_Bundle c),
               cc_WorkDir = path_Join [snapshotDir (c_Bundle c), ''work''],
               cc_Exit = True,
               cc_AllowOpenTCP = True,
               cc_AllowExternalUnixSockets = True,
               cc_AllowTerminal = False,
               cc_FileLocks = False,
               cc_EmptyNamespaces = [] \<rparr>]
      else []) \<and>
   (els \<noteq> [] \<and> (\<forall>el \<in> set els. plain_name el) \<and> c_Bundle c = rooted_path els \<longrightarrow>
      checkpoints (sw_trace (snd (scaleDown en c p s))) =
        checkpoints (sw_trace s) @
        (if se_RemoveAll en (snapshotDir (c_Bundle c)) = None \<and> p_Init p
         then [checkpoint_options_spec (c_Bundle c)] else []))"
proof -
  have "checkpoint_config (rooted_path els) (path_Join [snapshotDir (rooted_path els), ''work''])
          = checkpoint_options_spec (rooted_path els)"
    if "els \<noteq> []" and "\<forall>el \<in> set els. plain_name el"
    using snapshot_paths(2,3) [OF that]
    by (simp add: checkpoint_config_def checkpoint_options_spec_def)
  then show ?thesis
    using scaleDown_checkpoints [of en c p s]
    by (auto simp: checkpoint_config_def)
qed

theorem scaleDown_checkpoint_options_witness:
  "[''run'', ''bundle'', ''c1''] \<noteq> [] \<and>
   list_all plain_name [''run'', ''bundle'', ''c1''] \<and>
   c_Bundle cont1 = rooted_path [''run'', ''bundle'', ''c1''] \<and>
   checkpoints (sw_trace (snd (scaleDown scale_env_fail cont1 proc0 scale_wrapper0))) =
     [\<lparr> cc_Path = ''/run/bundle/c1/snapshots/container'',
         cc_WorkDir = ''/run/bundle/c1/snapshots/work'',
         cc_Exit = True, cc_AllowOpenTCP = True, cc_AllowExternalUnixSockets = True,
         cc_AllowTerminal = False, cc_FileLocks = False, cc_EmptyNamespaces = [] \<rparr>]"
proof -
  have h1: "[''run'', ''bundle'', ''c1''] \<noteq> ([] :: string list)" by simp
  have h2: "\<forall>el \<in> set [''run'', ''bundle'', ''c1'']. plain_name el"
    by (simp add: plain_name_def)
  have h3: "c_Bundle cont1 = rooted_path [''run'', ''bundle'', ''c1'']"
    by (simp add: cont1_def rooted_path_def)
  have v: "se_RemoveAll scale_env_fail path = None" "p_Init proc0"
    "sw_trace scale_wrapper0 = []" "c_Bundle cont1 = ''/run/bundle/c1''" for path
    by (simp_all add: scale_env_fail_def proc0_def scale_wrapper0_def cont1_def)
  from scaleDown_checkpoint_options [of scale_env_fail cont1 proc0 scale_wrapper0
      "[''run'', ''bundle'', ''c1'']"] h1 h2 h3
  have "checkpoints (sw_trace (snd (scaleDown scale_env_fail cont1 proc0 scale_wrapper0))) =
          checkpoints (sw_trace scale_wrapper0) @
          (if se_RemoveAll scale_env_fail (snapshotDir (c_Bundle cont1)) = None \<and> p_Init proc0
           then [checkpoint_options_spec (c_Bundle cont1)] else [])"
    by blast
  then have "checkpoints (sw_trace (snd (scaleDown scale_env_fail cont1 proc0 scale_wrapper0))) =
          [checkpoint_options_spec ''/run/bundle/c1'']"
    by (simp add: v)
  moreover have "list_all plain_name [''run'', ''bundle'', ''c1'']"
    using h2 by (simp add: list_all_iff)
  ultimately show ?thesis
    using h3 by (simp add: checkpoint_options_spec_def)
qed

text \<open>
  C4.  When \<^verbatim>\<open>Checkpoint\<close> fails, \<^verbatim>\<open>scaleDown\<close> resets the scaled-down flag, reads
  \<^verbatim>\<open>dump.log\<close> in the work directory and writes its contents to the log (nothing when
  the file cannot be read), and makes no call on the activator; the Start that triggered
  it returns a response and no error.
\<close>

theorem Start_checkpoint_failure_recovered:
  assumes "se_RemoveAll en (snapshotDir (c_Bundle c)) = None"
    and "p_Init p"
    and "se_Checkpoint en (checkpoint_config (c_Bundle c)
            (path_Join [snapshotDir (c_Bundle c), ''work''])) = Some e"
  shows "sw_scaledDown (snd (scaleDown en c p s0)) = False \<and>
         activator_calls (sw_trace (snd (scaleDown en c p s0))) = activator_calls (sw_trace s0) \<and>
         OsReadFile (path_Join [path_Join [snapshotDir (c_Bundle c), ''work''], ''dump.log''])
           \<in> set (sw_trace (snd (scaleDown en c p s0))) \<and>
         (Error, ''dump.log: %s'',
          [LBytes (case se_ReadFile en
                          (path_Join [path_Join [snapshotDir (c_Bundle c), ''work''], ''dump.log'']) of
                     Inl re \<Rightarrow> [] | Inr b \<Rightarrow> b)])
           \<in> set (sw_logs (snd (scaleDown en c p s0))) \<and>
         (se_svc_Start en = Inr resp \<and> sw_containers s (sr_ID r) = Some c \<and>
          se_container_Process en c (sr_ExecID r) = Inr p \<and>
          se_IsSandboxContainer en (c_Bundle c) = Inr False \<and> sr_ExecID r = [] \<longrightarrow>
            fst (scale_Start en r s) =
              Return (case se_ReadFile en
                             (path_Join [path_Join [snapshotDir (c_Bundle c), ''work''], ''dump.log'']) of
                        Inl re \<Rightarrow> \<lparr>resp_Pid = word_of_int (p_Pid p)\<rparr>
                      | Inr b \<Rightarrow> resp) \<and>
            sw_scaledDown (snd (scale_Start en r s)) = False \<and>
            activator_calls (sw_trace (snd (scale_Start en r s))) = activator_calls (sw_trace s) \<and>
            (Error, ''dump.log: %s'',
             [LBytes (case se_ReadFile en
                             (path_Join [path_Join [snapshotDir (c_Bundle c), ''work''], ''dump.log'']) of
                        Inl re \<Rightarrow> [] | Inr b \<Rightarrow> b)])
              \<in> set (sw_logs (snd (scale_Start en r s))))"
proof -
  let ?dump = "path_Join [path_Join [snapshotDir (c_Bundle c), ''work''], ''dump.log'']"
  have down: "sw_scaledDown (snd (scaleDown en c p t)) = False \<and>
         activator_calls (sw_trace (snd (scaleDown en c p t))) = activator_calls (sw_trace t) \<and>
         OsReadFile ?dump \<in> set (sw_trace (snd (scaleDown en c p t))) \<and>
         (Error, ''dump.log: %s'',
          [LBytes (case se_ReadFile en ?dump of Inl re \<Rightarrow> [] | Inr b \<Rightarrow> b)])
           \<in> set (sw_logs (snd (scaleDown en c p t)))" for t
    using scaleDown_checkpoint_failure(2,3,4) [OF assms, of t]
    by (simp add: activator_calls_append split: sum.splits)
  have start: "fst (scale_Start en r s) =
              Return (case se_ReadFile en ?dump of
                        Inl re \<Rightarrow> \<lparr>resp_Pid = word_of_int (p_Pid p)\<rparr> | Inr b \<Rightarrow> resp) \<and>
            sw_scaledDown (snd (scale_Start en r s)) = False \<and>
            activator_calls (sw_trace (snd (scale_Start en r s))) = activator_calls (sw_trace s) \<and>
            (Error, ''dump.log: %s'',
             [LBytes (case se_ReadFile en ?dump of Inl re \<Rightarrow> [] | Inr b \<Rightarrow> b)])
              \<in> set (sw_logs (snd (scale_Start en r s)))"
    if pre: "se_svc_Start en = Inr resp" "sw_containers s (sr_ID r) = Some c"
      "se_container_Process en c (sr_ExecID r) = Inr p"
      "se_IsSandboxContainer en (c_Bundle c) = Inr False" "sr_ExecID r = []"
  proof -
    let ?s1 = "emit1 (TimeSleep 2)
                 ((emit1 (ServiceStart (sr_ID r) (sr_ExecID r)) s)\<lparr>sw_originalProcess := Some p\<rparr>)"
    obtain out s2 where sd: "scaleDown en c p ?s1 = (out, s2)"
      by (cases "scaleDown en c p ?s1")
    from scaleDown_checkpoint_failure(1) [OF assms, of ?s1] sd
    have out: "out = (case se_ReadFile en ?dump of Inl re \<Rightarrow> Fail re | Inr b \<Rightarrow> Return ())"
      by simp
    from down [of ?s1] sd have st: "sw_scaledDown s2 = False"
      "activator_calls (sw_trace s2) = activator_calls (sw_trace s)"
      "(Error, ''dump.log: %s'',
         [LBytes (case se_ReadFile en ?dump of Inl re \<Rightarrow> [] | Inr b \<Rightarrow> b)]) \<in> set (sw_logs s2)"
      by (simp_all add: activator_calls_append emit1_def)
    have run: "scale_Start en r s =
                 (case out of
                    Fail e \<Rightarrow> (Return \<lparr>resp_Pid = word_of_int (p_Pid p)\<rparr>, s2)
                  | Return u \<Rightarrow> (Return resp, s2)
                  | ShimExit n \<Rightarrow> (ShimExit n, s2)
                  | Panic m \<Rightarrow> (Panic m, s2))"
      using pre sd
      by (simp add: scale_Start_def getContainer1_def Let_def emit1_def split: outcome.splits)
    show ?thesis
      unfolding run using out st by (simp split: sum.splits)
  qed
  from down [of s0] start show ?thesis by blast
qed

theorem Start_checkpoint_failure_recovered_witness:
  "se_RemoveAll scale_env_fail (snapshotDir (c_Bundle cont1)) = None \<and>
   p_Init proc0 \<and>
   se_Checkpoint scale_env_fail (checkpoint_config (c_Bundle cont1)
       (path_Join [snapshotDir (c_Bundle cont1), ''work''])) = Some (ErrRuntime ''criu dump failed'') \<and>
   se_svc_Start scale_env_fail = Inr \<lparr>resp_Pid = 42\<rparr> \<and>
   sw_containers scale_wrapper0 (sr_ID start_c1) = Some cont1 \<and>
   se_container_Process scale_env_fail cont1 (sr_ExecID start_c1) = Inr proc0 \<and>
   se_IsSandboxContainer scale_env_fail (c_Bundle cont1) = Inr False \<and>
   sr_ExecID start_c1 = [] \<and>
   fst (scale_Start scale_env_fail start_c1 scale_wrapper0) = Return \<lparr>resp_Pid = 42\<rparr> \<and>
   sw_scaledDown (snd (scale_Start scale_env_fail start_c1 scale_wrapper0)) = False \<and>
   activator_calls (sw_trace (snd (scale_Start scale_env_fail start_c1 scale_wrapper0))) = [] \<and>
   (Error, ''dump.log: %s'', [LBytes ''Error (criu/cr-dump.c): Dumping FAILED.''])
     \<in> set (sw_logs (snd (scale_Start scale_env_fail start_c1 scale_wrapper0)))"
proof -
  have h1: "se_svc_Start scale_env_fail = Inr \<lparr>resp_Pid = 42\<rparr>"
    by (simp add: scale_env_fail_def)
  have h2: "sw_containers scale_wrapper0 (sr_ID start_c1) = Some cont1"
    by (simp add: scale_wrapper0_def start_c1_def)
  have h3: "se_container_Process scale_env_fail cont1 (sr_ExecID start_c1) = Inr proc0"
    by (simp add: scale_env_fail_def)
  have h4: "se_IsSandboxContainer scale_env_fail (c_Bundle cont1) = Inr False"
    by (simp add: scale_env_fail_def)
  have h5: "sr_ExecID start_c1 = []" by (simp add: start_c1_def)
  have h6: "se_RemoveAll scale_env_fail (snapshotDir (c_Bundle cont1)) = None"
    by (simp add: scale_env_fail_def)
  have h7: "p_Init proc0" by (simp add: proc0_def)
  have h8: "se_Checkpoint scale_env_fail (checkpoint_config (c_Bundle cont1)
       (path_Join [snapshotDir (c_Bundle cont1), ''work''])) = Some (ErrRuntime ''criu dump failed'')"
    by (simp add: scale_env_fail_def)
  have pth: "path_Join [path_Join [snapshotDir (c_Bundle cont1), ''work''], ''dump.log'']
               = ''/run/bundle/c1/snapshots/work/dump.log''"
    by code_simp
  have rd: "se_ReadFile scale_env_fail ''/run/bundle/c1/snapshots/work/dump.log''
              = Inr ''Error (criu/cr-dump.c): Dumping FAILED.''"
    by (simp add: scale_env_fail_def)
  have v: "sw_trace scale_wrapper0 = []" by (simp add: scale_wrapper0_def)
  from Start_checkpoint_failure_recovered [OF h6 h7 h8, of scale_wrapper0
      "\<lparr>resp_Pid = 42\<rparr>" scale_wrapper0 start_c1] h1 h2 h3 h4 h5
  have "fst (scale_Start scale_env_fail start_c1 scale_wrapper0) = Return \<lparr>resp_Pid = 42\<rparr> \<and>
   sw_scaledDown (snd (scale_Start scale_env_fail start_c1 scale_wrapper0)) = False \<and>
   activator_calls (sw_trace (snd (scale_Start scale_env_fail start_c1 scale_wrapper0))) = [] \<and>
   (Error, ''dump.log: %s'', [LBytes ''Error (criu/cr-dump.c): Dumping FAILED.''])
     \<in> set (sw_logs (snd (scale_Start scale_env_fail start_c1 scale_wrapper0)))"
    by (simp add: pth rd v)
  with h1 h2 h3 h4 h5 h6 h7 h8 show ?thesis by simp
qed

subsection \<open>The stdio of the restored process\<close>

lemma new_processes_append: "new_processes (xs @ ys) = new_processes xs @ new_processes ys"
  by (induction xs rule: new_processes.induct) simp_all

text \<open>
  C9, as amended.  The stderr path handed to the restored process is computed from the
  rewritten stdout path alone, whatever the stderr path was: it is the rewritten stdout
  with one more \<^verbatim>\<open>-1\<close> stripped, between \<^verbatim>\<open>file://\<close> and \<^verbatim>\<open>-1\<close>.  It equals the stdout path
  handed to the process whenever the rewritten stdout does not itself end in \<^verbatim>\<open>-1\<close>.
\<close>

theorem restore_stderr_from_stdout:
  "new_processes (rs_trace (snd (snd (service_restore en c s)))) =
     new_processes (rs_trace s) @
     [\<lparr> Stdin = [],
         Stdout = ''file://'' @
           strings_TrimSuffix (strings_TrimPrefix (Stdout (rs_stdio s)) ''file://'') ''-1'' @ ''-1'',
         Stderr = ''file://'' @
           strings_TrimSuffix
             (strings_TrimSuffix (strings_TrimPrefix (Stdout (rs_stdio s)) ''file://'') ''-1'')
             ''-1'' @ ''-1'' \<rparr>] \<and>
   (\<not> strings_HasSuffix
         (strings_TrimSuffix (strings_TrimPrefix (Stdout (rs_stdio s)) ''file://'') ''-1'') ''-1'' \<longrightarrow>
      (\<exists>st. new_processes (rs_trace (snd (snd (service_restore en c s)))) =
              new_processes (rs_trace s) @ [st] \<and>
            Stderr st = Stdout st \<and>
            Stdout st = ''file://'' @ Stdout (rs_stdio (snd (snd (service_restore en c s)))) @ ''-1'' \<and>
            Stderr (rs_stdio (snd (snd (service_restore en c s)))) =
              Stdout (rs_stdio (snd (snd (service_restore en c s))))))"
proof -
  let ?X = "strings_TrimSuffix (strings_TrimPrefix (Stdout (rs_stdio s)) ''file://'') ''-1''"
  have tr: "new_processes (rs_trace (snd (snd (service_restore en c s)))) =
     new_processes (rs_trace s) @
     [\<lparr> Stdin = [], Stdout = ''file://'' @ ?X @ ''-1'',
         Stderr = ''file://'' @ strings_TrimSuffix ?X ''-1'' @ ''-1'' \<rparr>]"
    by (simp add: service_restore_def Let_def new_processes_append split: option.splits)
  have st: "Stdout (rs_stdio (snd (snd (service_restore en c s)))) = ?X"
    "Stderr (rs_stdio (snd (snd (service_restore en c s)))) = strings_TrimSuffix ?X ''-1''"
    by (simp_all add: service_restore_def Let_def split: option.splits)
  have same: "strings_TrimSuffix ?X ''-1'' = ?X" if "\<not> strings_HasSuffix ?X ''-1''"
    using that by (simp add: strings_TrimSuffix_def [of ?X])
  from tr st same show ?thesis by auto
qed

theorem restore_stderr_from_stdout_witness:
  "\<not> strings_HasSuffix
       (strings_TrimSuffix (strings_TrimPrefix (Stdout (rs_stdio restore_service_once)) ''file://'')
          ''-1'') ''-1'' \<and>
   new_processes (rs_trace (snd (snd (service_restore restore_env0 cont1 restore_service_once)))) =
     [\<lparr>Stdin = [], Stdout = ''file:///var/log/app-1'', Stderr = ''file:///var/log/app-1''\<rparr>]"
proof -
  have h: "\<not> strings_HasSuffix
       (strings_TrimSuffix (strings_TrimPrefix (Stdout (rs_stdio restore_service_once)) ''file://'')
          ''-1'') ''-1''"
    by code_simp
  have x: "strings_TrimSuffix (strings_TrimPrefix (Stdout (rs_stdio restore_service_once)) ''file://'')
          ''-1'' = ''/var/log/app''"
    by code_simp
  have y: "strings_TrimSuffix ''/var/log/app'' ''-1'' = ''/var/log/app''"
    by code_simp
  have v: "rs_trace restore_service_once = []" by (simp add: restore_service_once_def)
  from restore_stderr_from_stdout [of restore_env0 cont1 restore_service_once]
  have "new_processes (rs_trace (snd (snd (service_restore restore_env0 cont1 restore_service_once)))) =
     [\<lparr>Stdin = [], Stdout = ''file:///var/log/app-1'', Stderr = ''file:///var/log/app-1''\<rparr>]"
    by (simp add: x y v)
  with h show ?thesis by simp
qed

theorem restore_stderr_differs_counterexample:
  "fst (service_restore restore_env0 cont1 restore_service_twice) =
     Inr \<lparr>Stdin = [], Stdout = ''file:///var/log/app-1-1'', Stderr = ''file:///var/log/app-1''\<rparr> \<and>
   ''file:///var/log/app-1'' \<noteq> ''file:///var/log/app-1-1''"
  by code_simp

end
